theory Spec2Isabelle
  imports Main
begin

section \<open>Data model\<close>

text \<open>
  The authentication subsystem of the backend: \<^verbatim>\<open>middleware/auth.ts\<close> (verification
  middleware, optional authentication, per-user rate limiter), the auth router
  (register, login, refresh, logout, logout-all, change-password) and
  \<^verbatim>\<open>middleware/errorHandler.ts\<close> (classification of thrown errors).

  Identifiers (Prisma's generated ids) are opaque; they are natural numbers here.
  Times are JavaScript's \<^verbatim>\<open>Date.now()\<close>: integer milliseconds. A handler is given
  the clock reading \<open>now\<close>; a handler that issues tokens is also given
  \<open>now_refresh\<close>, the reading of the second of the two \<^verbatim>\<open>jwt.sign\<close> calls of
  \<^verbatim>\<open>generateTokens\<close>, which may fall in another second than the first.
\<close>

type_synonym ident = nat
type_synonym millis = int

datatype Role = USER | ADMIN | SUPER_ADMIN
datatype Plan = BASIC | PREMIUM | ENTERPRISE
datatype Status = ACTIVE | INACTIVE | SUSPENDED | CANCELLED

text \<open>The payload that \<^verbatim>\<open>generateTokens\<close> signs (interface \<^verbatim>\<open>JWTPayload\<close>).\<close>

record JWTPayload =
  userId :: ident
  email :: string
  role :: Role
  subscriptionPlan :: Plan
  subscriptionStatus :: Status

text \<open>
  The library \<^verbatim>\<open>jsonwebtoken\<close> is not part of the repository. A token is modelled
  symbolically: a signed token is the signing key, the payload and the two timestamps
  \<^verbatim>\<open>iat\<close> and \<^verbatim>\<open>exp\<close> that the library adds, both in whole seconds; any other string
  is \<open>Opaque\<close>. Signing is deterministic (HS256), so two signatures of one payload
  with one key in one clock second are the same token.
\<close>

datatype jwt = Jwt string JWTPayload int int | Opaque string

datatype jwt_error = JsonWebTokenError | TokenExpiredError

definition jwt_sign :: "JWTPayload \<Rightarrow> string \<Rightarrow> int \<Rightarrow> millis \<Rightarrow> jwt" where
  "jwt_sign payload secret expiresIn now =
     Jwt secret payload (now div 1000) (now div 1000 + expiresIn)"

fun jwt_verify :: "jwt \<Rightarrow> string \<Rightarrow> millis \<Rightarrow> jwt_error + JWTPayload" where
  "jwt_verify (Opaque s) secret now = Inl JsonWebTokenError"
| "jwt_verify (Jwt k payload iat exp) secret now =
     (if k \<noteq> secret then Inl JsonWebTokenError
      else if exp \<le> now div 1000 then Inl TokenExpiredError
      else Inr payload)"

text \<open>
  \<^verbatim>\<open>config.jwt\<close> and \<^verbatim>\<open>config.bcrypt\<close>. The lifetimes \<^verbatim>\<open>JWT_EXPIRES_IN\<close> and
  \<^verbatim>\<open>JWT_REFRESH_EXPIRES_IN\<close> are strings such as \<^verbatim>\<open>'1h'\<close> that the library turns
  into seconds; the record holds the seconds.
\<close>

record config =
  secret :: string
  refreshSecret :: string
  expiresIn :: int
  refreshExpiresIn :: int
  bcrypt_rounds :: nat

text \<open>
  Everything a handler can throw. \<open>OtherError\<close> is any other object, with the
  properties the error handler reads: \<^verbatim>\<open>name\<close>, \<^verbatim>\<open>constructor.name\<close>,
  \<^verbatim>\<open>code\<close> and \<^verbatim>\<open>type\<close>.
\<close>

datatype js_error =
    AppError string nat bool string
  | PrismaClientKnownRequestError string
  | ZodError
  | JwtError jwt_error
  | OtherError string string "int option" string

text \<open>
  In \<^verbatim>\<open>jsonwebtoken\<close>, \<^verbatim>\<open>TokenExpiredError\<close> is a subclass of
  \<^verbatim>\<open>JsonWebTokenError\<close>.
\<close>

fun instanceof_JsonWebTokenError :: "js_error \<Rightarrow> bool" where
  "instanceof_JsonWebTokenError (JwtError e) = True"
| "instanceof_JsonWebTokenError e = False"

fun instanceof_TokenExpiredError :: "js_error \<Rightarrow> bool" where
  "instanceof_TokenExpiredError (JwtError TokenExpiredError) = True"
| "instanceof_TokenExpiredError e = False"

text \<open>
  The tables \<^verbatim>\<open>users\<close> and \<^verbatim>\<open>user_sessions\<close> of the migration, with the columns
  the handlers read or write. A password hash is modelled symbolically as the cost
  factor and the password it was made from.
\<close>

datatype pwhash = Bcrypt nat string

record user =
  u_id :: ident
  u_email :: string
  u_passwordHash :: pwhash
  u_role :: Role
  u_subscriptionPlan :: Plan
  u_subscriptionStatus :: Status
  u_lastLogin :: "millis option"

record userSession =
  s_id :: ident
  s_userId :: ident
  s_token :: jwt
  s_refreshToken :: "jwt option"
  s_expiresAt :: millis
  s_isActive :: bool

text \<open>
  The database. \<open>storage_error\<close> models a failing store: while it is set, every
  query rejects with that error. \<open>next_id\<close> is the source of fresh ids.
\<close>

record db =
  users :: "user list"
  sessions :: "userSession list"
  next_id :: ident
  storage_error :: "js_error option"

text \<open>The \<^verbatim>\<open>select\<close> projection of a user row: the type of \<^verbatim>\<open>req.user\<close>.\<close>

record req_user =
  ru_id :: ident
  ru_email :: string
  ru_role :: Role
  ru_subscriptionPlan :: Plan
  ru_subscriptionStatus :: Status

definition select_user :: "user \<Rightarrow> req_user" where
  "select_user u =
     \<lparr>ru_id = u_id u, ru_email = u_email u, ru_role = u_role u,
      ru_subscriptionPlan = u_subscriptionPlan u,
      ru_subscriptionStatus = u_subscriptionStatus u\<rparr>"

text \<open>
  The \<^verbatim>\<open>Authorization\<close> header: either \<^verbatim>\<open>'Bearer '\<close> followed by a token, or a
  string that does not start with \<^verbatim>\<open>'Bearer '\<close>; absent is \<open>None\<close>.
\<close>

datatype auth_header = Bearer jwt | Scheme string

record request =
  authorization :: "auth_header option"
  req_user :: "req_user option"

record response =
  status :: nat
  error :: string
  message :: string
  code :: string
  retryAfter :: "int option"
  tokens :: "(jwt \<times> jwt) option"

definition json_error :: "nat \<Rightarrow> string \<Rightarrow> string \<Rightarrow> response" where
  "json_error st err msg =
     \<lparr>status = st, error = err, message = msg, code = [], retryAfter = None, tokens = None\<rparr>"

text \<open>A middleware either sends a response or calls \<^verbatim>\<open>next()\<close> with the request.\<close>

datatype mw_result = Respond response | Next request

section \<open>Queries\<close>

definition user_findUnique :: "db \<Rightarrow> ident \<Rightarrow> js_error + user option" where
  "user_findUnique d uid =
     (case storage_error d of
        Some e \<Rightarrow> Inl e
      | None \<Rightarrow> Inr (find (\<lambda>u. u_id u = uid) (users d)))"

definition user_update_lastLogin :: "db \<Rightarrow> ident \<Rightarrow> millis \<Rightarrow> js_error + db" where
  "user_update_lastLogin d uid now =
     (case storage_error d of
        Some e \<Rightarrow> Inl e
      | None \<Rightarrow>
          Inr (d\<lparr>users := map (\<lambda>u. if u_id u = uid then u\<lparr>u_lastLogin := Some now\<rparr> else u)
                              (users d)\<rparr>))"

section \<open>Verification middleware\<close>

text \<open>The body of the \<^verbatim>\<open>try\<close> block of \<^verbatim>\<open>authMiddleware\<close>, after the header check.\<close>

definition auth_try :: "config \<Rightarrow> millis \<Rightarrow> db \<Rightarrow> request \<Rightarrow> jwt \<Rightarrow> js_error + (mw_result \<times> db)" where
  "auth_try cfg now d req token =
     (case jwt_verify token (secret cfg) now of
        Inl e \<Rightarrow> Inl (JwtError e)
      | Inr decoded \<Rightarrow>
          (case user_findUnique d (userId decoded) of
             Inl e \<Rightarrow> Inl e
           | Inr None \<Rightarrow> Inr (Respond (json_error 401 ''Unauthorized'' ''User not found''), d)
           | Inr (Some u) \<Rightarrow>
               if u_subscriptionStatus u \<noteq> ACTIVE
               then Inr (Respond (json_error 403 ''Forbidden'' ''Account is not active''), d)
               else (case user_update_lastLogin d (u_id u) now of
                       Inl e \<Rightarrow> Inl e
                     | Inr d' \<Rightarrow> Inr (Next (req\<lparr>req_user := Some (select_user u)\<rparr>), d'))))"

definition auth_catch :: "js_error \<Rightarrow> response" where
  "auth_catch e =
     (if instanceof_JsonWebTokenError e
      then json_error 401 ''Unauthorized'' ''Invalid access token''
      else if instanceof_TokenExpiredError e
      then json_error 401 ''Unauthorized'' ''Access token has expired''
      else json_error 500 ''Internal Server Error'' ''Authentication failed'')"

definition authMiddleware :: "config \<Rightarrow> millis \<Rightarrow> db \<Rightarrow> request \<Rightarrow> mw_result \<times> db" where
  "authMiddleware cfg now d req =
     (case authorization req of
        None \<Rightarrow> (Respond (json_error 401 ''Unauthorized'' ''Access token is required''), d)
      | Some (Scheme s) \<Rightarrow>
          (Respond (json_error 401 ''Unauthorized'' ''Access token is required''), d)
      | Some (Bearer token) \<Rightarrow>
          (case auth_try cfg now d req token of
             Inr r \<Rightarrow> r
           | Inl e \<Rightarrow> (Respond (auth_catch e), d)))"

text \<open>\<^verbatim>\<open>optionalAuthMiddleware\<close>: every path ends in \<^verbatim>\<open>next()\<close>.\<close>

definition optional_try :: "config \<Rightarrow> millis \<Rightarrow> db \<Rightarrow> request \<Rightarrow> jwt \<Rightarrow> js_error + mw_result" where
  "optional_try cfg now d req token =
     (case jwt_verify token (secret cfg) now of
        Inl e \<Rightarrow> Inl (JwtError e)
      | Inr decoded \<Rightarrow>
          (case user_findUnique d (userId decoded) of
             Inl e \<Rightarrow> Inl e
           | Inr found \<Rightarrow>
               (case found of
                  Some u \<Rightarrow>
                    if u_subscriptionStatus u = ACTIVE
                    then Inr (Next (req\<lparr>req_user := Some (select_user u)\<rparr>))
                    else Inr (Next req)
                | None \<Rightarrow> Inr (Next req))))"

definition optionalAuthMiddleware :: "config \<Rightarrow> millis \<Rightarrow> db \<Rightarrow> request \<Rightarrow> mw_result" where
  "optionalAuthMiddleware cfg now d req =
     (case authorization req of
        None \<Rightarrow> Next req
      | Some (Scheme s) \<Rightarrow> Next req
      | Some (Bearer token) \<Rightarrow>
          (case optional_try cfg now d req token of
             Inr r \<Rightarrow> r
           | Inl e \<Rightarrow> Next req))"

section \<open>Per-user rate limiter\<close>

record userLimit =
  count :: int
  resetTime :: millis

text \<open>\<^verbatim>\<open>Math.ceil(x / 1000)\<close> on an integer \<open>x\<close>.\<close>

definition ceil_div_1000 :: "int \<Rightarrow> int" where
  "ceil_div_1000 x = - ((- x) div 1000)"

text \<open>
  The closure returned by \<^verbatim>\<open>userRateLimit(maxRequests, windowMs)\<close>; the map
  \<^verbatim>\<open>userRequests\<close> it closes over is passed in and returned.
\<close>

definition userRateLimit ::
  "int \<Rightarrow> int \<Rightarrow> millis \<Rightarrow> (ident \<rightharpoonup> userLimit) \<Rightarrow> request \<Rightarrow> mw_result \<times> (ident \<rightharpoonup> userLimit)" where
  "userRateLimit maxRequests windowMs now userRequests req =
     (case req_user req of
        None \<Rightarrow> (Next req, userRequests)
      | Some u \<Rightarrow>
          (let uid = ru_id u;
               fresh = userRequests(uid \<mapsto> \<lparr>count = 1, resetTime = now + windowMs\<rparr>)
           in case userRequests uid of
                None \<Rightarrow> (Next req, fresh)
              | Some userLimit \<Rightarrow>
                  if now > resetTime userLimit then (Next req, fresh)
                  else if count userLimit \<ge> maxRequests
                  then (Respond ((json_error 429 ''Too Many Requests''
                                    ''Rate limit exceeded for your account'')
                                  \<lparr>retryAfter := Some (ceil_div_1000 (resetTime userLimit - now))\<rparr>),
                        userRequests)
                  else (Next req,
                        userRequests(uid \<mapsto> userLimit\<lparr>count := count userLimit + 1\<rparr>))))"


section \<open>Error handler\<close>

text \<open>
  \<^verbatim>\<open>errorHandler\<close> turns a thrown error into an \<^verbatim>\<open>AppError\<close> and answers with its
  status code. The model keeps the status code, the \<^verbatim>\<open>isOperational\<close> flag and the
  machine-readable code of each branch; message texts, stack and request echo are left
  out.
\<close>

definition handlePrismaError :: "string \<Rightarrow> nat \<times> bool \<times> string" where
  "handlePrismaError c =
     (if c = ''P2002'' then (409, True, ''DUPLICATE_ENTRY'')
      else if c = ''P2025'' then (404, True, ''NOT_FOUND'')
      else if c = ''P2003'' then (400, True, ''FOREIGN_KEY_CONSTRAINT'')
      else if c = ''P2014'' then (400, True, ''REQUIRED_RELATION_VIOLATION'')
      else if c = ''P2000'' then (400, True, ''VALUE_TOO_LONG'')
      else if c = ''P2001'' then (404, True, ''RECORD_NOT_FOUND'')
      else if c = ''P2015'' then (400, True, ''RELATED_RECORD_NOT_FOUND'')
      else if c = ''P2016'' then (400, True, ''QUERY_INTERPRETATION_ERROR'')
      else if c = ''P2017'' then (400, True, ''RECORDS_NOT_CONNECTED'')
      else (500, False, ''DATABASE_ERROR''))"

definition handleMongoError :: "string \<Rightarrow> int option \<Rightarrow> nat \<times> bool \<times> string" where
  "handleMongoError nm c =
     (if c = Some 11000 then (409, True, ''DUPLICATE_ENTRY'')
      else if nm = ''ValidationError'' then (400, True, ''VALIDATION_ERROR'')
      else if nm = ''CastError'' then (400, True, ''INVALID_ID'')
      else (500, False, ''DATABASE_ERROR''))"

definition handleJWTError :: "string \<Rightarrow> nat \<times> bool \<times> string" where
  "handleJWTError nm =
     (if nm = ''JsonWebTokenError'' then (401, True, ''INVALID_TOKEN'')
      else if nm = ''TokenExpiredError'' then (401, True, ''TOKEN_EXPIRED'')
      else (401, True, ''AUTH_ERROR''))"

definition handleStripeError :: "string \<Rightarrow> nat \<times> bool \<times> string" where
  "handleStripeError ty =
     (if ty = ''StripeCardError'' then (400, True, ''CARD_ERROR'')
      else if ty = ''StripeRateLimitError'' then (429, True, ''RATE_LIMIT_ERROR'')
      else if ty = ''StripeInvalidRequestError'' then (400, True, ''INVALID_REQUEST'')
      else if ty = ''StripeAPIError'' then (500, False, ''STRIPE_API_ERROR'')
      else if ty = ''StripeConnectionError'' then (500, False, ''STRIPE_CONNECTION_ERROR'')
      else if ty = ''StripeAuthenticationError'' then (401, True, ''STRIPE_AUTH_ERROR'')
      else (500, False, ''PAYMENT_ERROR''))"

definition startsWith :: "string \<Rightarrow> string \<Rightarrow> bool" where
  "startsWith s p = (take (length p) s = p)"

fun jwt_error_name :: "jwt_error \<Rightarrow> string" where
  "jwt_error_name JsonWebTokenError = ''JsonWebTokenError''"
| "jwt_error_name TokenExpiredError = ''TokenExpiredError''"

text \<open>The chain of tests at the head of \<^verbatim>\<open>errorHandler\<close>, in the source's order.\<close>

fun toAppError :: "js_error \<Rightarrow> nat \<times> bool \<times> string" where
  "toAppError (AppError msg st op c) = (st, op, c)"
| "toAppError (PrismaClientKnownRequestError c) = handlePrismaError c"
| "toAppError ZodError = (400, True, ''VALIDATION_ERROR'')"
| "toAppError (JwtError e) = handleJWTError (jwt_error_name e)"
| "toAppError (OtherError nm ctor c ty) =
     (if nm = ''MongoError'' \<or> nm = ''ValidationError'' \<or> nm = ''CastError''
      then handleMongoError nm c
      else if nm = ''JsonWebTokenError'' \<or> nm = ''TokenExpiredError''
      then handleJWTError nm
      else if startsWith ctor ''Stripe'' then handleStripeError ty
      else (500, False, ''INTERNAL_ERROR''))"

definition getErrorName :: "nat \<Rightarrow> string" where
  "getErrorName st =
     (if st = 400 then ''Bad Request''
      else if st = 401 then ''Unauthorized''
      else if st = 403 then ''Forbidden''
      else if st = 404 then ''Not Found''
      else if st = 409 then ''Conflict''
      else if st = 422 then ''Unprocessable Entity''
      else if st = 429 then ''Too Many Requests''
      else if st = 500 then ''Internal Server Error''
      else if st = 502 then ''Bad Gateway''
      else if st = 503 then ''Service Unavailable''
      else ''Error'')"

definition errorHandler :: "js_error \<Rightarrow> response" where
  "errorHandler e =
     (case toAppError e of
        (st, op, c) \<Rightarrow>
          \<lparr>status = st, error = getErrorName st, message = [], code = c,
           retryAfter = None, tokens = None\<rparr>)"

section \<open>Auth router\<close>

subsection \<open>Token issue and password hashing\<close>

text \<open>
  \<^verbatim>\<open>generateTokens\<close> calls \<^verbatim>\<open>jwt.sign\<close> twice; each call reads the clock for its
  own \<^verbatim>\<open>iat\<close>: the access token at \<open>now\<close>, the refresh token at \<open>now_refresh\<close>.
\<close>

definition generateTokens :: "config \<Rightarrow> millis \<Rightarrow> millis \<Rightarrow> req_user \<Rightarrow> jwt \<times> jwt" where
  "generateTokens cfg now now_refresh u =
     (let payload = \<lparr>userId = ru_id u, email = ru_email u, role = ru_role u,
                     subscriptionPlan = ru_subscriptionPlan u,
                     subscriptionStatus = ru_subscriptionStatus u\<rparr>
      in (jwt_sign payload (secret cfg) (expiresIn cfg) now,
          jwt_sign payload (refreshSecret cfg) (refreshExpiresIn cfg) now_refresh))"

definition hashPassword :: "config \<Rightarrow> string \<Rightarrow> pwhash" where
  "hashPassword cfg password = Bcrypt (bcrypt_rounds cfg) password"

fun verifyPassword :: "string \<Rightarrow> pwhash \<Rightarrow> bool" where
  "verifyPassword password (Bcrypt rounds p) = (password = p)"

text \<open>The session lifetime written by register, login and refresh.\<close>

definition session_lifetime_ms :: int where
  "session_lifetime_ms = 7 * 24 * 60 * 60 * 1000"

subsection \<open>Queries on users and sessions\<close>

definition user_findUnique_email :: "db \<Rightarrow> string \<Rightarrow> js_error + user option" where
  "user_findUnique_email d em =
     (case storage_error d of
        Some e \<Rightarrow> Inl e
      | None \<Rightarrow> Inr (find (\<lambda>u. u_email u = em) (users d)))"

text \<open>
  \<^verbatim>\<open>prisma.user.create\<close> of the register handler; the unique index on the email
  rejects a duplicate with P2002.
\<close>

definition user_create :: "config \<Rightarrow> db \<Rightarrow> string \<Rightarrow> pwhash \<Rightarrow> js_error + (user \<times> db)" where
  "user_create cfg d em ph =
     (case storage_error d of
        Some e \<Rightarrow> Inl e
      | None \<Rightarrow>
          if em \<in> u_email ` set (users d) then Inl (PrismaClientKnownRequestError ''P2002'')
          else (let u = \<lparr>u_id = next_id d, u_email = em, u_passwordHash = ph, u_role = USER,
                         u_subscriptionPlan = BASIC, u_subscriptionStatus = ACTIVE,
                         u_lastLogin = None\<rparr>
                in Inr (u, d\<lparr>users := users d @ [u], next_id := next_id d + 1\<rparr>)))"

definition user_update_passwordHash :: "db \<Rightarrow> ident \<Rightarrow> pwhash \<Rightarrow> js_error + db" where
  "user_update_passwordHash d uid ph =
     (case storage_error d of
        Some e \<Rightarrow> Inl e
      | None \<Rightarrow>
          Inr (d\<lparr>users := map (\<lambda>u. if u_id u = uid then u\<lparr>u_passwordHash := ph\<rparr> else u)
                              (users d)\<rparr>))"

text \<open>
  \<^verbatim>\<open>prisma.userSession.create\<close>; the unique index on \<^verbatim>\<open>token\<close> rejects a duplicate
  access token with P2002. \<^verbatim>\<open>is_active\<close> defaults to true.
\<close>

definition userSession_create ::
  "db \<Rightarrow> ident \<Rightarrow> jwt \<Rightarrow> jwt \<Rightarrow> millis \<Rightarrow> js_error + db" where
  "userSession_create d uid accessToken refreshToken expiresAt =
     (case storage_error d of
        Some e \<Rightarrow> Inl e
      | None \<Rightarrow>
          if accessToken \<in> s_token ` set (sessions d)
          then Inl (PrismaClientKnownRequestError ''P2002'')
          else Inr (d\<lparr>sessions := sessions d @
                         [\<lparr>s_id = next_id d, s_userId = uid, s_token = accessToken,
                           s_refreshToken = Some refreshToken, s_expiresAt = expiresAt,
                           s_isActive = True\<rparr>],
                       next_id := next_id d + 1\<rparr>))"

text \<open>
  \<^verbatim>\<open>prisma.userSession.findFirst\<close> of the refresh handler, with the owning user
  (\<^verbatim>\<open>include: { user }\<close>).
\<close>

definition userSession_findFirst ::
  "db \<Rightarrow> jwt \<Rightarrow> millis \<Rightarrow> js_error + (userSession \<times> user option) option" where
  "userSession_findFirst d refreshToken now =
     (case storage_error d of
        Some e \<Rightarrow> Inl e
      | None \<Rightarrow>
          Inr (map_option (\<lambda>s. (s, find (\<lambda>u. u_id u = s_userId s) (users d)))
                 (find (\<lambda>s. s_refreshToken s = Some refreshToken \<and> s_isActive s
                             \<and> s_expiresAt s > now)
                       (sessions d))))"

text \<open>
  \<^verbatim>\<open>prisma.userSession.update({ where: { id }, data })\<close> of the refresh handler: P2025
  when no row has the id, P2002 when another row holds the new access token.
\<close>

definition userSession_update ::
  "db \<Rightarrow> ident \<Rightarrow> jwt \<Rightarrow> jwt \<Rightarrow> millis \<Rightarrow> js_error + db" where
  "userSession_update d sid accessToken refreshToken expiresAt =
     (case storage_error d of
        Some e \<Rightarrow> Inl e
      | None \<Rightarrow>
          if sid \<notin> s_id ` set (sessions d) then Inl (PrismaClientKnownRequestError ''P2025'')
          else if accessToken \<in> s_token ` {s \<in> set (sessions d). s_id s \<noteq> sid}
          then Inl (PrismaClientKnownRequestError ''P2002'')
          else Inr (d\<lparr>sessions :=
                        map (\<lambda>s. if s_id s = sid
                                 then s\<lparr>s_token := accessToken,
                                        s_refreshToken := Some refreshToken,
                                        s_expiresAt := expiresAt\<rparr>
                                 else s)
                            (sessions d)\<rparr>))"

text \<open>\<^verbatim>\<open>prisma.userSession.updateMany({ where, data: { isActive: false } })\<close>.\<close>

definition userSession_deactivateMany :: "db \<Rightarrow> (userSession \<Rightarrow> bool) \<Rightarrow> js_error + db" where
  "userSession_deactivateMany d wh =
     (case storage_error d of
        Some e \<Rightarrow> Inl e
      | None \<Rightarrow>
          Inr (d\<lparr>sessions := map (\<lambda>s. if wh s then s\<lparr>s_isActive := False\<rparr> else s)
                                 (sessions d)\<rparr>))"

subsection \<open>Handlers\<close>

text \<open>
  A handler returns what it throws or the response it sends, and the database as it
  leaves it. \<open>valid\<close> is \<^verbatim>\<open>validationResult(req).isEmpty()\<close>.
\<close>

type_synonym handler_result = "(js_error + response) \<times> db"

definition json_ok :: "nat \<Rightarrow> string \<Rightarrow> (jwt \<times> jwt) option \<Rightarrow> response" where
  "json_ok st msg toks =
     \<lparr>status = st, error = [], message = msg, code = [], retryAfter = None, tokens = toks\<rparr>"

definition register ::
  "config \<Rightarrow> millis \<Rightarrow> millis \<Rightarrow> db \<Rightarrow> bool \<Rightarrow> string \<Rightarrow> string \<Rightarrow> handler_result" where
  "register cfg now now_refresh d valid em password =
     (if \<not> valid then (Inl (AppError ''Validation failed'' 400 True ''VALIDATION_ERROR''), d)
      else case user_findUnique_email d em of
        Inl e \<Rightarrow> (Inl e, d)
      | Inr (Some existingUser) \<Rightarrow>
          (Inl (AppError ''User with this email already exists'' 409 True ''USER_EXISTS''), d)
      | Inr None \<Rightarrow>
          (case user_create cfg d em (hashPassword cfg password) of
             Inl e \<Rightarrow> (Inl e, d)
           | Inr (u, d1) \<Rightarrow>
               (case generateTokens cfg now now_refresh (select_user u) of
                  (accessToken, refreshToken) \<Rightarrow>
                    (case userSession_create d1 (u_id u) accessToken refreshToken
                            (now + session_lifetime_ms) of
                       Inl e \<Rightarrow> (Inl e, d1)
                     | Inr d2 \<Rightarrow>
                         (Inr (json_ok 201 ''User registered successfully''
                                 (Some (accessToken, refreshToken))), d2)))))"

definition login ::
  "config \<Rightarrow> millis \<Rightarrow> millis \<Rightarrow> db \<Rightarrow> bool \<Rightarrow> string \<Rightarrow> string \<Rightarrow> handler_result" where
  "login cfg now now_refresh d valid em password =
     (if \<not> valid then (Inl (AppError ''Validation failed'' 400 True ''VALIDATION_ERROR''), d)
      else case user_findUnique_email d em of
        Inl e \<Rightarrow> (Inl e, d)
      | Inr None \<Rightarrow>
          (Inl (AppError ''Invalid email or password'' 401 True ''INVALID_CREDENTIALS''), d)
      | Inr (Some u) \<Rightarrow>
          if \<not> verifyPassword password (u_passwordHash u)
          then (Inl (AppError ''Invalid email or password'' 401 True ''INVALID_CREDENTIALS''), d)
          else if u_subscriptionStatus u \<noteq> ACTIVE
          then (Inl (AppError ''Account is not active'' 403 True ''ACCOUNT_INACTIVE''), d)
          else (case generateTokens cfg now now_refresh (select_user u) of
                  (accessToken, refreshToken) \<Rightarrow>
                    (case userSession_create d (u_id u) accessToken refreshToken
                            (now + session_lifetime_ms) of
                       Inl e \<Rightarrow> (Inl e, d)
                     | Inr d1 \<Rightarrow>
                         (case user_update_lastLogin d1 (u_id u) now of
                            Inl e \<Rightarrow> (Inl e, d1)
                          | Inr d2 \<Rightarrow>
                              (Inr (json_ok 200 ''Login successful''
                                      (Some (accessToken, refreshToken))), d2)))))"

text \<open>
  The refresh handler reads (\<^verbatim>\<open>findFirst\<close>) and then writes (\<^verbatim>\<open>update\<close>), with an
  \<^verbatim>\<open>await\<close> at each. \<open>refresh_lookup\<close> is the handler up to the minting of the new
  pair; \<open>refresh_commit\<close> is the update and the response. A pending rotation is the
  id of the session found and the new pair.
\<close>

type_synonym rotation = "ident \<times> jwt \<times> jwt"

definition refresh_lookup ::
  "config \<Rightarrow> millis \<Rightarrow> millis \<Rightarrow> db \<Rightarrow> jwt \<Rightarrow> js_error + rotation" where
  "refresh_lookup cfg now now_refresh d refreshToken =
     (case jwt_verify refreshToken (refreshSecret cfg) now of
        Inl e \<Rightarrow> Inl (JwtError e)
      | Inr decoded \<Rightarrow>
          (case userSession_findFirst d refreshToken now of
             Inl e \<Rightarrow> Inl e
           | Inr None \<Rightarrow>
               Inl (AppError ''Invalid refresh token'' 401 True ''INVALID_REFRESH_TOKEN'')
           | Inr (Some (session, None)) \<Rightarrow>
               Inl (OtherError ''TypeError'' ''TypeError'' None [])
           | Inr (Some (session, Some u)) \<Rightarrow>
               if u_subscriptionStatus u \<noteq> ACTIVE
               then Inl (AppError ''Account is not active'' 403 True ''ACCOUNT_INACTIVE'')
               else (case generateTokens cfg now now_refresh (select_user u) of
                       (accessToken, newRefreshToken) \<Rightarrow>
                         Inr (s_id session, accessToken, newRefreshToken))))"

definition refresh_commit :: "millis \<Rightarrow> db \<Rightarrow> rotation \<Rightarrow> js_error + (response \<times> db)" where
  "refresh_commit now d rot =
     (case rot of
        (sid, accessToken, newRefreshToken) \<Rightarrow>
          (case userSession_update d sid accessToken newRefreshToken
                  (now + session_lifetime_ms) of
             Inl e \<Rightarrow> Inl e
           | Inr d' \<Rightarrow>
               Inr (json_ok 200 ''Tokens refreshed successfully''
                      (Some (accessToken, newRefreshToken)), d')))"

text \<open>The \<^verbatim>\<open>catch\<close> block of the refresh handler.\<close>

definition refresh_catch :: "js_error \<Rightarrow> js_error" where
  "refresh_catch e =
     (if instanceof_JsonWebTokenError e
      then AppError ''Invalid refresh token'' 401 True ''INVALID_REFRESH_TOKEN''
      else e)"

text \<open>
  The rest of the handler once the lookup has answered: the update, and the
  \<^verbatim>\<open>catch\<close> block around both.
\<close>

definition refresh_finish :: "millis \<Rightarrow> db \<Rightarrow> js_error + rotation \<Rightarrow> handler_result" where
  "refresh_finish now d found =
     (case found of
        Inl e \<Rightarrow> (Inl (refresh_catch e), d)
      | Inr rot \<Rightarrow>
          (case refresh_commit now d rot of
             Inl e \<Rightarrow> (Inl (refresh_catch e), d)
           | Inr (r, d') \<Rightarrow> (Inr r, d')))"

text \<open>\<^verbatim>\<open>!refreshToken\<close>: the body has no such field, or it is the empty string.\<close>

definition refresh ::
  "config \<Rightarrow> millis \<Rightarrow> millis \<Rightarrow> db \<Rightarrow> jwt option \<Rightarrow> handler_result" where
  "refresh cfg now now_refresh d body_refreshToken =
     (case body_refreshToken of
        None \<Rightarrow>
          (Inl (AppError ''Refresh token is required'' 400 True ''MISSING_REFRESH_TOKEN''), d)
      | Some refreshToken \<Rightarrow>
          if refreshToken = Opaque []
          then (Inl (AppError ''Refresh token is required'' 400 True ''MISSING_REFRESH_TOKEN''), d)
          else refresh_finish now d (refresh_lookup cfg now now_refresh d refreshToken))"

text \<open>
  Two refresh requests A and B with one token, scheduled so that both lookups run
  before either update: A's lookup, B's lookup, A's update, B's update.
\<close>

definition refresh_overlapped ::
  "config \<Rightarrow> millis \<Rightarrow> millis \<Rightarrow> millis \<Rightarrow> millis \<Rightarrow> db \<Rightarrow> jwt
     \<Rightarrow> (js_error + response) \<times> (js_error + response) \<times> db" where
  "refresh_overlapped cfg nowA nowA_refresh nowB nowB_refresh d refreshToken =
     (let foundA = refresh_lookup cfg nowA nowA_refresh d refreshToken;
          foundB = refresh_lookup cfg nowB nowB_refresh d refreshToken
      in case refresh_finish nowA d foundA of
           (resA, d1) \<Rightarrow>
             (case refresh_finish nowB d1 foundB of
                (resB, d2) \<Rightarrow> (resA, resB, d2)))"

text \<open>
  \<^verbatim>\<open>authHeader?.substring(7)\<close> in logout and change-password: the text after the
  first seven characters of the header, \<^verbatim>\<open>undefined\<close> without a header.
\<close>

fun header_token :: "auth_header option \<Rightarrow> jwt option" where
  "header_token None = None"
| "header_token (Some (Bearer t)) = Some t"
| "header_token (Some (Scheme s)) = Some (Opaque (drop 7 s))"

text \<open>Reading \<^verbatim>\<open>req.user!.id\<close> without a user throws a \<^verbatim>\<open>TypeError\<close>.\<close>

definition no_user :: js_error where
  "no_user = OtherError ''TypeError'' ''TypeError'' None []"

definition logout :: "db \<Rightarrow> request \<Rightarrow> handler_result" where
  "logout d req =
     (case req_user req of
        None \<Rightarrow> (Inl no_user, d)
      | Some ru \<Rightarrow>
          (case header_token (authorization req) of
             None \<Rightarrow> (Inr (json_ok 200 ''Logout successful'' None), d)
           | Some token \<Rightarrow>
               if token = Opaque [] then (Inr (json_ok 200 ''Logout successful'' None), d)
               else (case userSession_deactivateMany d
                            (\<lambda>s. s_token s = token \<and> s_userId s = ru_id ru) of
                       Inl e \<Rightarrow> (Inl e, d)
                     | Inr d' \<Rightarrow> (Inr (json_ok 200 ''Logout successful'' None), d'))))"

definition logout_all :: "db \<Rightarrow> request \<Rightarrow> handler_result" where
  "logout_all d req =
     (case req_user req of
        None \<Rightarrow> (Inl no_user, d)
      | Some ru \<Rightarrow>
          (case userSession_deactivateMany d (\<lambda>s. s_userId s = ru_id ru \<and> s_isActive s) of
             Inl e \<Rightarrow> (Inl e, d)
           | Inr d' \<Rightarrow>
               (Inr (json_ok 200 ''Logged out from all devices successfully'' None), d')))"

text \<open>
  In the \<^verbatim>\<open>where\<close> of change-password, \<^verbatim>\<open>token: { not: undefined }\<close> is no
  condition.
\<close>

definition change_password ::
  "config \<Rightarrow> db \<Rightarrow> request \<Rightarrow> bool \<Rightarrow> string \<Rightarrow> string \<Rightarrow> handler_result" where
  "change_password cfg d req valid currentPassword newPassword =
     (if \<not> valid then (Inl (AppError ''Validation failed'' 400 True ''VALIDATION_ERROR''), d)
      else case req_user req of
        None \<Rightarrow> (Inl no_user, d)
      | Some ru \<Rightarrow>
          (case user_findUnique d (ru_id ru) of
             Inl e \<Rightarrow> (Inl e, d)
           | Inr None \<Rightarrow> (Inl (AppError ''User not found'' 404 True ''USER_NOT_FOUND''), d)
           | Inr (Some u) \<Rightarrow>
               if \<not> verifyPassword currentPassword (u_passwordHash u)
               then (Inl (AppError ''Current password is incorrect'' 400 True
                            ''INVALID_CURRENT_PASSWORD''), d)
               else (case user_update_passwordHash d (u_id u) (hashPassword cfg newPassword) of
                       Inl e \<Rightarrow> (Inl e, d)
                     | Inr d1 \<Rightarrow>
                         (case userSession_deactivateMany d1
                                 (\<lambda>s. s_userId s = u_id u \<and> s_isActive s
                                      \<and> (case header_token (authorization req) of
                                            None \<Rightarrow> True
                                          | Some currentToken \<Rightarrow> s_token s \<noteq> currentToken)) of
                            Inl e \<Rightarrow> (Inl e, d1)
                          | Inr d2 \<Rightarrow>
                              (Inr (json_ok 200 ''Password changed successfully'' None), d2)))))"

subsection \<open>Routes\<close>

text \<open>
  \<^verbatim>\<open>asyncHandler\<close> passes whatever the handler throws to the global error handler.
\<close>

fun finish :: "handler_result \<Rightarrow> response \<times> db" where
  "finish (Inl e, d) = (errorHandler e, d)"
| "finish (Inr r, d) = (r, d)"

definition route_refresh ::
  "config \<Rightarrow> millis \<Rightarrow> millis \<Rightarrow> db \<Rightarrow> jwt option \<Rightarrow> response \<times> db" where
  "route_refresh cfg now now_refresh d body_refreshToken =
     finish (refresh cfg now now_refresh d body_refreshToken)"

text \<open>A route behind \<^verbatim>\<open>authMiddleware\<close>.\<close>

definition authenticated ::
  "config \<Rightarrow> millis \<Rightarrow> db \<Rightarrow> request \<Rightarrow> (db \<Rightarrow> request \<Rightarrow> handler_result) \<Rightarrow> response \<times> db" where
  "authenticated cfg now d req handler =
     (case authMiddleware cfg now d req of
        (Respond r, d') \<Rightarrow> (r, d')
      | (Next req', d') \<Rightarrow> finish (handler d' req'))"

definition route_logout :: "config \<Rightarrow> millis \<Rightarrow> db \<Rightarrow> request \<Rightarrow> response \<times> db" where
  "route_logout cfg now d req = authenticated cfg now d req logout"

definition route_logout_all :: "config \<Rightarrow> millis \<Rightarrow> db \<Rightarrow> request \<Rightarrow> response \<times> db" where
  "route_logout_all cfg now d req = authenticated cfg now d req logout_all"

definition route_change_password ::
  "config \<Rightarrow> millis \<Rightarrow> db \<Rightarrow> request \<Rightarrow> bool \<Rightarrow> string \<Rightarrow> string \<Rightarrow> response \<times> db" where
  "route_change_password cfg now d req valid currentPassword newPassword =
     authenticated cfg now d req
       (\<lambda>d' req'. change_password cfg d' req' valid currentPassword newPassword)"

definition route_register ::
  "config \<Rightarrow> millis \<Rightarrow> millis \<Rightarrow> db \<Rightarrow> bool \<Rightarrow> string \<Rightarrow> string \<Rightarrow> response \<times> db" where
  "route_register cfg now now_refresh d valid em password =
     finish (register cfg now now_refresh d valid em password)"

definition route_login ::
  "config \<Rightarrow> millis \<Rightarrow> millis \<Rightarrow> db \<Rightarrow> bool \<Rightarrow> string \<Rightarrow> string \<Rightarrow> response \<times> db" where
  "route_login cfg now now_refresh d valid em password =
     finish (login cfg now now_refresh d valid em password)"

subsection \<open>Sequences of requests\<close>

text \<open>
  The requests that reach the session table: the six routes of the auth router, and any
  other route behind \<^verbatim>\<open>authMiddleware\<close>. A request that issues tokens carries the
  clock reading of its second signature.
\<close>

datatype call =
    Register millis bool string string
  | Login millis bool string string
  | Refresh millis "jwt option"
  | Logout request
  | LogoutAll request
  | ChangePassword request bool string string
  | Authenticate request

fun step :: "config \<Rightarrow> db \<Rightarrow> millis \<times> call \<Rightarrow> db" where
  "step cfg d (now, Register now_refresh valid em password) =
     snd (route_register cfg now now_refresh d valid em password)"
| "step cfg d (now, Login now_refresh valid em password) =
     snd (route_login cfg now now_refresh d valid em password)"
| "step cfg d (now, Refresh now_refresh body_refreshToken) =
     snd (route_refresh cfg now now_refresh d body_refreshToken)"
| "step cfg d (now, Logout req) = snd (route_logout cfg now d req)"
| "step cfg d (now, LogoutAll req) = snd (route_logout_all cfg now d req)"
| "step cfg d (now, ChangePassword req valid currentPassword newPassword) =
     snd (route_change_password cfg now d req valid currentPassword newPassword)"
| "step cfg d (now, Authenticate req) = snd (authMiddleware cfg now d req)"

definition run :: "config \<Rightarrow> db \<Rightarrow> (millis \<times> call) list \<Rightarrow> db" where
  "run cfg d calls = foldl (step cfg) d calls"

text \<open>
  How the tables change under the queries the handlers make: the user table alone, a
  session row created or rewritten, rows deactivated, and any sequence of these.
\<close>

inductive evolves :: "db \<Rightarrow> db \<Rightarrow> bool" where
  users_only: "sessions d' = sessions d \<Longrightarrow> next_id d \<le> next_id d' \<Longrightarrow> evolves d d'"
| created: "userSession_create d uid a n x = Inr d' \<Longrightarrow> evolves d d'"
| updated: "userSession_update d sid a n x = Inr d' \<Longrightarrow> evolves d d'"
| deactivated: "userSession_deactivateMany d wh = Inr d' \<Longrightarrow> evolves d d'"
| after: "evolves d d1 \<Longrightarrow> evolves d1 d' \<Longrightarrow> evolves d d'"

section \<open>Properties of states and results\<close>

text \<open>The identity a middleware attached, if it called \<^verbatim>\<open>next()\<close>.\<close>

fun attached :: "mw_result \<Rightarrow> req_user option" where
  "attached (Respond r) = None"
| "attached (Next req) = req_user req"

text \<open>Two results a client cannot tell apart: one response, or one identity.\<close>

fun same_outcome :: "mw_result \<Rightarrow> mw_result \<Rightarrow> bool" where
  "same_outcome (Respond r) (Respond r') = (r = r')"
| "same_outcome (Next req) (Next req') = (req_user req = req_user req')"
| "same_outcome a b = False"

text \<open>The status of the response a middleware sent, if it sent one.\<close>

fun mw_status :: "mw_result \<Rightarrow> nat option" where
  "mw_status (Respond r) = Some (status r)"
| "mw_status (Next req) = None"

text \<open>
  The session table as the schema and the handlers keep it: primary key, unique index on
  \<^verbatim>\<open>token\<close>, ids below the next fresh id.
\<close>

definition sessions_ok :: "db \<Rightarrow> bool" where
  "sessions_ok d =
     (distinct (map s_id (sessions d))
    \<and> distinct (map s_token (sessions d))
    \<and> list_all (\<lambda>s. s_id s < next_id d) (sessions d))"


section \<open>Example data\<close>

definition ex_cfg :: config where
  "ex_cfg = \<lparr>secret = ''access-secret'', refreshSecret = ''refresh-secret'',
             expiresIn = 3600, refreshExpiresIn = 604800, bcrypt_rounds = 12\<rparr>"

definition ex_user :: "Status \<Rightarrow> user" where
  "ex_user st = \<lparr>u_id = 1, u_email = ''a@x.com'', u_passwordHash = Bcrypt 12 ''Aa1!aaaa'',
                 u_role = USER, u_subscriptionPlan = BASIC, u_subscriptionStatus = st,
                 u_lastLogin = None\<rparr>"

text \<open>A database with one account and no session.\<close>

definition ex_db :: "Status \<Rightarrow> db" where
  "ex_db st = \<lparr>users = [ex_user st], sessions = [], next_id = 2, storage_error = None\<rparr>"

definition ex_payload :: "Role \<Rightarrow> Status \<Rightarrow> JWTPayload" where
  "ex_payload r st = \<lparr>userId = 1, email = ''a@x.com'', role = r, subscriptionPlan = BASIC,
                      subscriptionStatus = st\<rparr>"

text \<open>Access and refresh token of the account, issued in second \<open>iat\<close>.\<close>

definition ex_access :: "int \<Rightarrow> jwt" where
  "ex_access iat = Jwt ''access-secret'' (ex_payload USER ACTIVE) iat (iat + 3600)"

definition ex_refresh :: "int \<Rightarrow> jwt" where
  "ex_refresh iat = Jwt ''refresh-secret'' (ex_payload USER ACTIVE) iat (iat + 604800)"

definition ex_bearer :: "jwt \<Rightarrow> request" where
  "ex_bearer t = \<lparr>authorization = Some (Bearer t), req_user = None\<rparr>"

definition ex_authed :: "jwt \<Rightarrow> request" where
  "ex_authed t = \<lparr>authorization = Some (Bearer t),
                  req_user = Some (select_user (ex_user ACTIVE))\<rparr>"

text \<open>The account after a login at 5000 ms: one session, issued in second 5.\<close>

definition ex_db_login :: db where
  "ex_db_login = snd (route_login ex_cfg 5000 5000 (ex_db ACTIVE) True ''a@x.com'' ''Aa1!aaaa'')"

text \<open>The same after a second login, at 9000 ms from another device.\<close>

definition ex_db_two :: db where
  "ex_db_two = snd (route_login ex_cfg 9000 9000 ex_db_login True ''a@x.com'' ''Aa1!aaaa'')"

text \<open>The session of that login after a rotation at 7200 ms, in second 7.\<close>

definition ex_db_rotated :: db where
  "ex_db_rotated = snd (route_refresh ex_cfg 7200 7200 ex_db_login (Some (ex_refresh 5)))"

text \<open>
  A second account, an administrator on the premium plan, and access tokens naming it
  that carry any role, plan and status.
\<close>

definition ex_admin :: user where
  "ex_admin = \<lparr>u_id = 7, u_email = ''b@x.com'', u_passwordHash = Bcrypt 12 ''Cc3#cccc'',
               u_role = ADMIN, u_subscriptionPlan = PREMIUM, u_subscriptionStatus = ACTIVE,
               u_lastLogin = None\<rparr>"

definition ex_db_admin :: db where
  "ex_db_admin = \<lparr>users = [ex_user ACTIVE, ex_admin], sessions = [], next_id = 8,
                  storage_error = None\<rparr>"

definition ex_admin_token :: "Role \<Rightarrow> Plan \<Rightarrow> Status \<Rightarrow> jwt" where
  "ex_admin_token r p st =
     Jwt ''access-secret''
       \<lparr>userId = 7, email = ''b@x.com'', role = r, subscriptionPlan = p,
        subscriptionStatus = st\<rparr> 5 3605"

text \<open>The store is down: every query rejects with a plain \<^verbatim>\<open>Error\<close>.\<close>

definition ex_db_down :: db where
  "ex_db_down = (ex_db ACTIVE)\<lparr>storage_error := Some (OtherError ''Error'' ''Error'' None [])\<rparr>"

text \<open>The account is suspended after its login; its session is still active.\<close>

definition ex_db_suspended :: db where
  "ex_db_suspended = ex_db_login\<lparr>users := [ex_user SUSPENDED]\<rparr>"

text \<open>A limiter in which the account has used its five requests; the window ends at 61 s.\<close>

definition ex_limit_reached :: "ident \<rightharpoonup> userLimit" where
  "ex_limit_reached = Map.empty(1 \<mapsto> \<lparr>count = 5, resetTime = 61000\<rparr>)"

section \<open>Verification middleware: account status and identity\<close>

text \<open>
  Claim C3, as the code has it. For an account whose status is not ACTIVE, a valid
  access token naming the account is refused with 403 (Account is not active); a
  malformed or expired token is refused with 401 before any account is looked up.
\<close>

theorem authMiddleware_inactive_account:
  assumes up: "storage_error d = None"
      and live: "find (\<lambda>u. u_id u = userId decoded) (users d) = Some u"
      and inactive: "u_subscriptionStatus u \<noteq> ACTIVE"
      and valid: "jwt_verify token (secret cfg) now = Inr decoded"
      and invalid: "jwt_verify token' (secret cfg) now = Inl e"
  shows "authMiddleware cfg now d (req\<lparr>authorization := Some (Bearer token)\<rparr>)
           = (Respond (json_error 403 ''Forbidden'' ''Account is not active''), d)
       \<and> mw_status (fst (authMiddleware cfg now d (req\<lparr>authorization := Some (Bearer token')\<rparr>)))
           = Some 401"
proof
  show "authMiddleware cfg now d (req\<lparr>authorization := Some (Bearer token)\<rparr>)
          = (Respond (json_error 403 ''Forbidden'' ''Account is not active''), d)"
    using up live inactive valid
    by (simp add: authMiddleware_def auth_try_def user_findUnique_def)
  show "mw_status (fst (authMiddleware cfg now d (req\<lparr>authorization := Some (Bearer token')\<rparr>)))
          = Some 401"
    using invalid
    by (simp add: authMiddleware_def auth_try_def auth_catch_def json_error_def)
qed

text \<open>
  A suspended account, a valid token issued in second 5 and read at 6 s, and an opaque
  string in place of a token.
\<close>

theorem authMiddleware_inactive_account_witness:
  "authMiddleware ex_cfg 6000 (ex_db SUSPENDED) (ex_bearer (ex_access 5))
     = (Respond (json_error 403 ''Forbidden'' ''Account is not active''), ex_db SUSPENDED)
   \<and> mw_status (fst (authMiddleware ex_cfg 6000 (ex_db SUSPENDED) (ex_bearer (Opaque ''x''))))
     = Some 401"
proof -
  have up: "storage_error (ex_db SUSPENDED) = None"
    by (simp add: ex_db_def)
  have live: "find (\<lambda>u. u_id u = userId (ex_payload USER ACTIVE)) (users (ex_db SUSPENDED))
                = Some (ex_user SUSPENDED)"
    by (simp add: ex_db_def ex_user_def ex_payload_def)
  have inactive: "u_subscriptionStatus (ex_user SUSPENDED) \<noteq> ACTIVE"
    by (simp add: ex_user_def)
  have valid: "jwt_verify (ex_access 5) (secret ex_cfg) 6000 = Inr (ex_payload USER ACTIVE)"
    by (simp add: ex_access_def ex_cfg_def)
  have invalid: "jwt_verify (Opaque ''x'') (secret ex_cfg) 6000 = Inl JsonWebTokenError"
    by simp
  show ?thesis
    using authMiddleware_inactive_account [OF up live inactive valid invalid,
        of "ex_bearer (ex_access 5)"]
    by (simp add: ex_bearer_def)
qed

text \<open>
  Against C3 as stated: the account is suspended and the token is its own, expired at
  4000 s; the answer is 401, not 403.
\<close>

theorem authMiddleware_expired_token_inactive_account:
  "u_subscriptionStatus (ex_user SUSPENDED) = SUSPENDED
   \<and> users (ex_db SUSPENDED) = [ex_user SUSPENDED]
   \<and> jwt_verify (ex_access 5) (secret ex_cfg) 4000000 = Inl TokenExpiredError
   \<and> mw_status (fst (authMiddleware ex_cfg 4000000 (ex_db SUSPENDED) (ex_bearer (ex_access 5))))
       = Some 401"
  by (simp add: authMiddleware_def auth_try_def auth_catch_def json_error_def
      ex_bearer_def ex_access_def ex_cfg_def ex_db_def ex_user_def)

text \<open>
  Claim C4. Two valid access tokens that name one account give one result, whatever
  role, plan and status each carries: the same response or the same attached identity,
  and the same database. The identity attached has the id, email, role, plan and status
  of the live user row, and it is attached whenever the store answers and the live row
  is ACTIVE.
\<close>

theorem authMiddleware_identity_from_live_record:
  assumes "jwt_verify t1 (secret cfg) now = Inr p1"
      and "jwt_verify t2 (secret cfg) now = Inr p2"
      and "userId p1 = userId p2"
  shows "same_outcome (fst (authMiddleware cfg now d (req\<lparr>authorization := Some (Bearer t1)\<rparr>)))
                      (fst (authMiddleware cfg now d (req\<lparr>authorization := Some (Bearer t2)\<rparr>)))
       \<and> snd (authMiddleware cfg now d (req\<lparr>authorization := Some (Bearer t1)\<rparr>))
         = snd (authMiddleware cfg now d (req\<lparr>authorization := Some (Bearer t2)\<rparr>))
       \<and> (\<forall>idn. attached (fst (authMiddleware cfg now d (req\<lparr>authorization := Some (Bearer t1)\<rparr>)))
                   = Some idn
            \<longrightarrow> (\<exists>u. find (\<lambda>u. u_id u = userId p1) (users d) = Some u
                    \<and> ru_id idn = u_id u \<and> ru_email idn = u_email u
                    \<and> ru_role idn = u_role u
                    \<and> ru_subscriptionPlan idn = u_subscriptionPlan u
                    \<and> ru_subscriptionStatus idn = u_subscriptionStatus u))
       \<and> (\<forall>u. storage_error d = None
                \<and> find (\<lambda>u. u_id u = userId p1) (users d) = Some u
                \<and> u_subscriptionStatus u = ACTIVE
            \<longrightarrow> attached (fst (authMiddleware cfg now d (req\<lparr>authorization := Some (Bearer t2)\<rparr>)))
                  = Some \<lparr>ru_id = u_id u, ru_email = u_email u, ru_role = u_role u,
                          ru_subscriptionPlan = u_subscriptionPlan u,
                          ru_subscriptionStatus = u_subscriptionStatus u\<rparr>)"
  using assms
  by (auto simp: authMiddleware_def auth_try_def auth_catch_def user_findUnique_def
        user_update_lastLogin_def select_user_def
      split: option.splits sum.splits)

text \<open>
  The live row says ADMIN, PREMIUM, ACTIVE. One token says USER, BASIC, ACTIVE, the other
  SUPER_ADMIN, ENTERPRISE, CANCELLED; the identity attached for each is that of the row.
\<close>

theorem authMiddleware_identity_from_live_record_witness:
  "attached (fst (authMiddleware ex_cfg 6000 ex_db_admin
                    (ex_bearer (ex_admin_token USER BASIC ACTIVE))))
     = Some \<lparr>ru_id = 7, ru_email = ''b@x.com'', ru_role = ADMIN,
             ru_subscriptionPlan = PREMIUM, ru_subscriptionStatus = ACTIVE\<rparr>
   \<and> attached (fst (authMiddleware ex_cfg 6000 ex_db_admin
                      (ex_bearer (ex_admin_token SUPER_ADMIN ENTERPRISE CANCELLED))))
     = Some \<lparr>ru_id = 7, ru_email = ''b@x.com'', ru_role = ADMIN,
             ru_subscriptionPlan = PREMIUM, ru_subscriptionStatus = ACTIVE\<rparr>
   \<and> snd (authMiddleware ex_cfg 6000 ex_db_admin
             (ex_bearer (ex_admin_token USER BASIC ACTIVE)))
     = snd (authMiddleware ex_cfg 6000 ex_db_admin
             (ex_bearer (ex_admin_token SUPER_ADMIN ENTERPRISE CANCELLED)))"
proof -
  have v1: "jwt_verify (ex_admin_token USER BASIC ACTIVE) (secret ex_cfg) 6000
              = Inr \<lparr>userId = 7, email = ''b@x.com'', role = USER, subscriptionPlan = BASIC,
                     subscriptionStatus = ACTIVE\<rparr>"
    by (simp add: ex_admin_token_def ex_cfg_def)
  have v2: "jwt_verify (ex_admin_token SUPER_ADMIN ENTERPRISE CANCELLED) (secret ex_cfg) 6000
              = Inr \<lparr>userId = 7, email = ''b@x.com'', role = SUPER_ADMIN,
                     subscriptionPlan = ENTERPRISE, subscriptionStatus = CANCELLED\<rparr>"
    by (simp add: ex_admin_token_def ex_cfg_def)
  have same: "userId \<lparr>userId = 7, email = ''b@x.com'', role = USER, subscriptionPlan = BASIC,
                     subscriptionStatus = ACTIVE\<rparr>
            = userId \<lparr>userId = 7, email = ''b@x.com'', role = SUPER_ADMIN,
                     subscriptionPlan = ENTERPRISE, subscriptionStatus = CANCELLED\<rparr>"
    by simp
  note inst = authMiddleware_identity_from_live_record [OF v1 v2 same, of ex_db_admin
      "ex_bearer (ex_admin_token USER BASIC ACTIVE)"]
  have up: "storage_error ex_db_admin = None"
    and live: "find (\<lambda>u. u_id u = 7) (users ex_db_admin) = Some ex_admin"
    and row: "u_id ex_admin = 7" "u_email ex_admin = ''b@x.com''" "u_role ex_admin = ADMIN"
      "u_subscriptionPlan ex_admin = PREMIUM" "u_subscriptionStatus ex_admin = ACTIVE"
    by (simp_all add: ex_db_admin_def ex_admin_def ex_user_def)
  have two: "attached (fst (authMiddleware ex_cfg 6000 ex_db_admin
                      (ex_bearer (ex_admin_token SUPER_ADMIN ENTERPRISE CANCELLED))))
     = Some \<lparr>ru_id = 7, ru_email = ''b@x.com'', ru_role = ADMIN,
             ru_subscriptionPlan = PREMIUM, ru_subscriptionStatus = ACTIVE\<rparr>"
    using inst up live row by (simp add: ex_bearer_def)
  have one: "attached (fst (authMiddleware ex_cfg 6000 ex_db_admin
                    (ex_bearer (ex_admin_token USER BASIC ACTIVE))))
     = Some \<lparr>ru_id = 7, ru_email = ''b@x.com'', ru_role = ADMIN,
             ru_subscriptionPlan = PREMIUM, ru_subscriptionStatus = ACTIVE\<rparr>"
    by code_simp
  have dbs: "snd (authMiddleware ex_cfg 6000 ex_db_admin
             (ex_bearer (ex_admin_token USER BASIC ACTIVE)))
     = snd (authMiddleware ex_cfg 6000 ex_db_admin
             (ex_bearer (ex_admin_token SUPER_ADMIN ENTERPRISE CANCELLED)))"
    using inst by (simp add: ex_bearer_def)
  show ?thesis using one two dbs by simp
qed

section \<open>Optional authentication\<close>

text \<open>
  Claim C9. \<open>optionalAuthMiddleware\<close> never answers: it calls \<^verbatim>\<open>next()\<close>, with the
  request as it came unless the header is a bearer token that verifies, the store
  answers, the account exists and its status is ACTIVE; only then is the identity of
  the live row attached.
\<close>

theorem optionalAuthMiddleware_never_rejects:
  "optionalAuthMiddleware cfg now d req = Next req
   \<or> (\<exists>token decoded u.
         authorization req = Some (Bearer token)
       \<and> jwt_verify token (secret cfg) now = Inr decoded
       \<and> storage_error d = None
       \<and> find (\<lambda>u. u_id u = userId decoded) (users d) = Some u
       \<and> u_subscriptionStatus u = ACTIVE
       \<and> optionalAuthMiddleware cfg now d req = Next (req\<lparr>req_user := Some (select_user u)\<rparr>))"
  by (auto simp: optionalAuthMiddleware_def optional_try_def user_findUnique_def
      split: option.splits sum.splits auth_header.splits)

section \<open>Rate limiter\<close>








section \<open>The session table\<close>

lemma session_lifetime_ms_eq: "session_lifetime_ms = 604800000"
  by (simp add: session_lifetime_ms_def)

subsection \<open>What each query does to the tables\<close>

lemma create_sessions:
  assumes "userSession_create d uid a n x = Inr d'"
  shows "sessions d' = sessions d @
           [\<lparr>s_id = next_id d, s_userId = uid, s_token = a, s_refreshToken = Some n,
             s_expiresAt = x, s_isActive = True\<rparr>]"
    and "users d' = users d" and "storage_error d' = None" and "storage_error d = None"
    and "a \<notin> s_token ` set (sessions d)"
  using assms by (auto simp: userSession_create_def split: option.splits if_splits)

lemma update_sessions:
  assumes "userSession_update d sid a n x = Inr d'"
  shows "sessions d' = map (\<lambda>s. if s_id s = sid
                                 then s\<lparr>s_token := a, s_refreshToken := Some n, s_expiresAt := x\<rparr>
                                 else s) (sessions d)"
    and "users d' = users d" and "next_id d' = next_id d"
    and "storage_error d' = None" and "storage_error d = None"
    and "sid \<in> s_id ` set (sessions d)"
  using assms by (auto simp: userSession_update_def split: option.splits if_splits)

lemma deactivateMany_sessions:
  assumes "userSession_deactivateMany d wh = Inr d'"
  shows "sessions d' = map (\<lambda>s. if wh s then s\<lparr>s_isActive := False\<rparr> else s) (sessions d)"
    and "users d' = users d" and "next_id d' = next_id d" and "storage_error d' = None"
    and "storage_error d = None"
  using assms by (auto simp: userSession_deactivateMany_def split: option.splits)

lemma user_create_sessions:
  assumes "user_create cfg d em ph = Inr (u, d1)"
  shows "sessions d1 = sessions d" and "next_id d \<le> next_id d1" and "storage_error d1 = None"
  using assms by (auto simp: user_create_def Let_def split: option.splits if_splits)

lemma user_update_lastLogin_sessions:
  assumes "user_update_lastLogin d uid now = Inr d1"
  shows "sessions d1 = sessions d" and "next_id d1 = next_id d" and "storage_error d1 = None"
  using assms by (auto simp: user_update_lastLogin_def split: option.splits)

lemma user_update_passwordHash_sessions:
  assumes "user_update_passwordHash d uid ph = Inr d1"
  shows "sessions d1 = sessions d" and "next_id d1 = next_id d" and "storage_error d1 = None"
  using assms by (auto simp: user_update_passwordHash_def split: option.splits)

subsection \<open>What each handler does to the tables\<close>

lemma authMiddleware_shape:
  assumes "authMiddleware cfg now d req = (r, d')"
  shows "d' = d \<or> (\<exists>uid. user_update_lastLogin d uid now = Inr d')"
  using assms unfolding authMiddleware_def auth_try_def
  by (auto split: option.splits auth_header.splits sum.splits if_splits)

lemma authMiddleware_keeps:
  assumes "authMiddleware cfg now d req = (r, d')"
  shows "sessions d' = sessions d" and "next_id d' = next_id d"
    and "storage_error d' = storage_error d"
  using assms
  by (auto simp: authMiddleware_def auth_try_def user_findUnique_def user_update_lastLogin_def
      split: option.splits auth_header.splits sum.splits if_splits)

lemma register_shape:
  assumes "register cfg now now_refresh d valid em pw = (x, d')"
  shows "d' = d
       \<or> (\<exists>u d1. user_create cfg d em (hashPassword cfg pw) = Inr (u, d1)
             \<and> (d' = d1
                \<or> (\<exists>a n. generateTokens cfg now now_refresh (select_user u) = (a, n)
                      \<and> userSession_create d1 (u_id u) a n (now + session_lifetime_ms) = Inr d')))"
  using assms unfolding register_def
  by (auto split: if_splits sum.splits option.splits prod.splits)

lemma register_success:
  assumes "register cfg now now_refresh d valid em pw = (Inr r, d')"
  shows "\<exists>u d1 a n. user_create cfg d em (hashPassword cfg pw) = Inr (u, d1)
           \<and> generateTokens cfg now now_refresh (select_user u) = (a, n)
           \<and> userSession_create d1 (u_id u) a n (now + session_lifetime_ms) = Inr d'
           \<and> r = json_ok 201 ''User registered successfully'' (Some (a, n))"
  using assms unfolding register_def
  by (auto split: if_splits sum.splits option.splits prod.splits)

lemma login_shape:
  assumes "login cfg now now_refresh d valid em pw = (x, d')"
  shows "d' = d
       \<or> (\<exists>u a n d1. generateTokens cfg now now_refresh (select_user u) = (a, n)
             \<and> userSession_create d (u_id u) a n (now + session_lifetime_ms) = Inr d1
             \<and> (d' = d1 \<or> user_update_lastLogin d1 (u_id u) now = Inr d'))"
  using assms unfolding login_def
  by (auto split: if_splits sum.splits option.splits prod.splits)

lemma login_success:
  assumes "login cfg now now_refresh d valid em pw = (Inr r, d')"
  shows "\<exists>u a n d1. user_findUnique_email d em = Inr (Some u)
           \<and> generateTokens cfg now now_refresh (select_user u) = (a, n)
           \<and> userSession_create d (u_id u) a n (now + session_lifetime_ms) = Inr d1
           \<and> user_update_lastLogin d1 (u_id u) now = Inr d'
           \<and> r = json_ok 200 ''Login successful'' (Some (a, n))"
  using assms unfolding login_def
  by (auto split: if_splits sum.splits option.splits prod.splits)

lemma refresh_shape:
  assumes "refresh cfg now now_refresh d body = (x, d')"
  shows "d' = d
       \<or> (\<exists>sid a n. userSession_update d sid a n (now + session_lifetime_ms) = Inr d')"
  using assms unfolding refresh_def refresh_finish_def refresh_commit_def refresh_lookup_def
  by (auto split: if_splits sum.splits option.splits prod.splits)

lemma refresh_success:
  assumes "refresh cfg now now_refresh d body = (Inr r, d')"
  shows "\<exists>tok session u a n.
             body = Some tok \<and> tok \<noteq> Opaque []
           \<and> jwt_verify tok (refreshSecret cfg) now \<noteq> Inl JsonWebTokenError
           \<and> jwt_verify tok (refreshSecret cfg) now \<noteq> Inl TokenExpiredError
           \<and> storage_error d = None
           \<and> find (\<lambda>s. s_refreshToken s = Some tok \<and> s_isActive s \<and> s_expiresAt s > now)
                  (sessions d) = Some session
           \<and> find (\<lambda>u. u_id u = s_userId session) (users d) = Some u
           \<and> u_subscriptionStatus u = ACTIVE
           \<and> generateTokens cfg now now_refresh (select_user u) = (a, n)
           \<and> userSession_update d (s_id session) a n (now + session_lifetime_ms) = Inr d'
           \<and> r = json_ok 200 ''Tokens refreshed successfully'' (Some (a, n))"
  using assms
  unfolding refresh_def refresh_finish_def refresh_commit_def refresh_lookup_def
    userSession_findFirst_def
  by (auto split: if_splits sum.splits option.splits prod.splits)

lemma logout_shape:
  assumes "logout d req = (x, d')"
  shows "d' = d \<or> (\<exists>wh. userSession_deactivateMany d wh = Inr d')"
  using assms unfolding logout_def
  by (auto split: if_splits sum.splits option.splits)

lemma logout_all_shape:
  assumes "logout_all d req = (x, d')"
  shows "d' = d \<or> (\<exists>wh. userSession_deactivateMany d wh = Inr d')"
  using assms unfolding logout_all_def
  by (auto split: if_splits sum.splits option.splits)

lemma change_password_shape:
  assumes "change_password cfg d req valid cur new = (x, d')"
  shows "d' = d
       \<or> (\<exists>uid d1. user_update_passwordHash d uid (hashPassword cfg new) = Inr d1
             \<and> (d' = d1 \<or> (\<exists>wh. userSession_deactivateMany d1 wh = Inr d')))"
  using assms unfolding change_password_def
  by (auto split: if_splits sum.splits option.splits)

lemma finish_snd: "snd (finish x) = snd x"
proof (cases x)
  case (Pair a d)
  then show ?thesis by (cases a) auto
qed


lemma authMiddleware_evolves:
  assumes "authMiddleware cfg now d req = (r, d')"
  shows "evolves d d'"
  using authMiddleware_keeps [OF assms] by (intro users_only) simp_all

lemma register_evolves:
  assumes "register cfg now now_refresh d valid em pw = (x, d')"
  shows "evolves d d'"
  using register_shape [OF assms]
  by (metis after created order_refl user_create_sessions(1,2) users_only)

lemma login_evolves:
  assumes "login cfg now now_refresh d valid em pw = (x, d')"
  shows "evolves d d'"
  using login_shape [OF assms]
  by (metis after created eq_imp_le user_update_lastLogin_sessions(1,2) users_only)

lemma refresh_evolves:
  assumes "refresh cfg now now_refresh d body = (x, d')"
  shows "evolves d d'"
  using refresh_shape [OF assms] by (metis order_refl updated users_only)

lemma logout_evolves:
  assumes "logout d req = (x, d')"
  shows "evolves d d'"
  using logout_shape [OF assms] by (metis order_refl deactivated users_only)

lemma logout_all_evolves:
  assumes "logout_all d req = (x, d')"
  shows "evolves d d'"
  using logout_all_shape [OF assms] by (metis order_refl deactivated users_only)

lemma change_password_evolves:
  assumes "change_password cfg d req valid cur new = (x, d')"
  shows "evolves d d'"
  using change_password_shape [OF assms]
  by (metis after deactivated eq_imp_le user_update_passwordHash_sessions(1,2) users_only)

lemma authenticated_evolves:
  assumes h: "\<And>d1 req1. evolves d1 (snd (handler d1 req1))"
  shows "evolves d (snd (authenticated cfg now d req handler))"
proof (cases "authMiddleware cfg now d req")
  case (Pair r d1)
  have e1: "evolves d d1" using authMiddleware_evolves [OF Pair] .
  show ?thesis
  proof (cases r)
    case (Respond x)
    with Pair e1 show ?thesis by (simp add: authenticated_def)
  next
    case (Next req1)
    with Pair have "snd (authenticated cfg now d req handler) = snd (handler d1 req1)"
      by (simp add: authenticated_def finish_snd)
    with e1 h [of d1 req1] show ?thesis by (auto intro: after)
  qed
qed

lemma step_evolves: "evolves d (step cfg d c)"
proof (cases c)
  case (Pair now k)
  show ?thesis
  proof (cases k)
    case (Register nr v e p)
    with Pair register_evolves [of cfg now nr d v e p] show ?thesis
      by (cases "register cfg now nr d v e p") (simp add: route_register_def finish_snd)
  next
    case (Login nr v e p)
    with Pair login_evolves [of cfg now nr d v e p] show ?thesis
      by (cases "login cfg now nr d v e p") (simp add: route_login_def finish_snd)
  next
    case (Refresh nr b)
    with Pair refresh_evolves [of cfg now nr d b] show ?thesis
      by (cases "refresh cfg now nr d b") (simp add: route_refresh_def finish_snd)
  next
    case (Logout req)
    have "evolves d1 (snd (logout d1 req1))" for d1 req1
      using logout_evolves [of d1 req1] by (cases "logout d1 req1") simp
    with Pair Logout show ?thesis
      using authenticated_evolves [where handler = logout and d = d and cfg = cfg and now = now and req = req] by (simp add: route_logout_def)
  next
    case (LogoutAll req)
    have "evolves d1 (snd (logout_all d1 req1))" for d1 req1
      using logout_all_evolves [of d1 req1] by (cases "logout_all d1 req1") simp
    with Pair LogoutAll show ?thesis
      using authenticated_evolves [where handler = logout_all and d = d and cfg = cfg and now = now and req = req]
      by (simp add: route_logout_all_def)
  next
    case (ChangePassword req v cur new)
    have "evolves d1 (snd (change_password cfg d1 req1 v cur new))" for d1 req1
      using change_password_evolves [of cfg d1 req1 v cur new]
      by (cases "change_password cfg d1 req1 v cur new") simp
    with Pair ChangePassword show ?thesis
      using authenticated_evolves
        [where handler = "\<lambda>d' req'. change_password cfg d' req' v cur new" and d = d
          and cfg = cfg and now = now and req = req]
      by (simp add: route_change_password_def)
  next
    case (Authenticate req)
    with Pair authMiddleware_evolves [of cfg now d req] show ?thesis
      by (cases "authMiddleware cfg now d req") simp
  qed
qed

lemma run_evolves: "evolves d (run cfg d calls)"
proof (induction calls arbitrary: d)
  case Nil
  show ?case by (simp add: run_def users_only)
next
  case (Cons c calls)
  have "evolves d (step cfg d c)" by (rule step_evolves)
  moreover have "evolves (step cfg d c) (run cfg (step cfg d c) calls)" by (rule Cons.IH)
  ultimately show ?case by (simp add: run_def after)
qed

subsection \<open>The invariant\<close>

lemma create_ok:
  assumes ok: "sessions_ok d"
      and cr: "userSession_create d uid a n x = Inr d'"
  shows "sessions_ok d'"
proof -
  from cr have up: "storage_error d = None" and fresh: "a \<notin> s_token ` set (sessions d)"
    and d': "d' = d\<lparr>sessions := sessions d @
                         [\<lparr>s_id = next_id d, s_userId = uid, s_token = a,
                           s_refreshToken = Some n, s_expiresAt = x,
                           s_isActive = True\<rparr>],
                       next_id := next_id d + 1\<rparr>"
    by (auto simp: userSession_create_def split: option.splits if_splits)
  have "next_id d \<notin> s_id ` set (sessions d)"
    using ok by (auto simp: sessions_ok_def list_all_iff)
  moreover have "list_all (\<lambda>s. s_id s < next_id d + 1) (sessions d)"
    using ok by (auto simp: sessions_ok_def list_all_iff)
  ultimately show ?thesis
    using ok fresh
    unfolding d' sessions_ok_def by simp
qed

lemma update_ok:
  assumes ok: "sessions_ok d"
      and upd: "userSession_update d sid a n x = Inr d'"
  shows "sessions_ok d'"
proof -
  let ?f = "\<lambda>s. if s_id s = sid
                 then s\<lparr>s_token := a, s_refreshToken := Some n, s_expiresAt := x\<rparr> else s"
  from upd have fresh: "a \<notin> s_token ` {s \<in> set (sessions d). s_id s \<noteq> sid}"
    and d': "d' = d\<lparr>sessions := map ?f (sessions d)\<rparr>"
    by (auto simp: userSession_update_def split: option.splits if_splits)
  have ids: "map s_id (sessions d') = map s_id (sessions d)"
    by (simp add: d')
  have nid: "next_id d' = next_id d"
    by (simp add: d')
  have dist: "distinct (map s_id (sessions d))" and distt: "distinct (map s_token (sessions d))"
    using ok by (auto simp: sessions_ok_def)
  have inj: "inj_on s_id (set (sessions d))"
    using dist by (simp add: distinct_map)
  have "inj_on (\<lambda>s. s_token (?f s)) (set (sessions d))"
  proof (rule inj_onI)
    fix s s' assume m: "s \<in> set (sessions d)" "s' \<in> set (sessions d)"
      and e: "s_token (?f s) = s_token (?f s')"
    show "s = s'"
    proof (cases "s_id s = sid")
      case True
      show ?thesis
      proof (cases "s_id s' = sid")
        case True
        with \<open>s_id s = sid\<close> inj m show ?thesis by (auto dest: inj_onD)
      next
        case False
        with True e have "s_token s' = a" by simp
        with False m fresh show ?thesis by auto
      qed
    next
      case False
      show ?thesis
      proof (cases "s_id s' = sid")
        case True
        with False e have "s_token s = a" by simp
        with False m fresh show ?thesis by auto
      next
        case F2: False
        with False e have "s_token s = s_token s'" by simp
        moreover have "inj_on s_token (set (sessions d))"
          using distt by (simp add: distinct_map)
        ultimately show ?thesis using m by (auto dest: inj_onD)
      qed
    qed
  qed
  moreover have "distinct (sessions d)"
    using dist by (simp add: distinct_map)
  ultimately have "distinct (map (\<lambda>s. s_token (?f s)) (sessions d))"
    by (simp add: distinct_map)
  then have tok: "distinct (map s_token (sessions d'))"
    by (simp add: d' comp_def)
  have bound: "list_all (\<lambda>s. s_id s < next_id d) (sessions d')"
    using ok by (auto simp: d' sessions_ok_def list_all_iff)
  show ?thesis
    unfolding sessions_ok_def ids nid using dist tok bound by blast
qed

lemma deactivateMany_ok:
  assumes ok: "sessions_ok d"
      and upd: "userSession_deactivateMany d wh = Inr d'"
  shows "sessions_ok d'"
proof -
  note d' = deactivateMany_sessions [OF upd]
  have ids: "map s_id (sessions d') = map s_id (sessions d)"
    and toks: "map s_token (sessions d') = map s_token (sessions d)"
    by (simp_all add: d')
  have bound: "list_all (\<lambda>s. s_id s < next_id d) (sessions d')"
    using ok by (auto simp: d' sessions_ok_def list_all_iff)
  show ?thesis
    unfolding sessions_ok_def ids toks d'(3) using ok bound
    by (simp add: sessions_ok_def)
qed

lemma evolves_ok:
  assumes "evolves d d'" "sessions_ok d"
  shows "sessions_ok d'"
  using assms
proof (induction rule: evolves.induct)
  case (users_only d' d)
  then show ?case by (auto simp: sessions_ok_def list_all_iff)
next
  case (created d uid a n x d')
  then show ?case using create_ok by blast
next
  case (updated d sid a n x d')
  then show ?case using update_ok by blast
next
  case (deactivated d wh d')
  then show ?case using deactivateMany_ok by blast
next
  case (after d d1 d')
  then show ?case by blast
qed

lemma run_ok: "sessions_ok d \<Longrightarrow> sessions_ok (run cfg d calls)"
  using run_evolves evolves_ok by blast

text \<open>
  An empty session table is in order, so every table that requests to these routes build
  from it is in order.
\<close>

lemma sessions_ok_initial: "sessions d = [] \<Longrightarrow> sessions_ok d"
  by (simp add: sessions_ok_def)

lemma reachable_ok: "sessions d = [] \<Longrightarrow> sessions_ok (run cfg d calls)"
  by (simp add: run_ok sessions_ok_initial)

subsection \<open>Revoked sessions stay revoked\<close>




subsection \<open>Example states\<close>

lemma ex_db_login_eq:
  "ex_db_login =
     \<lparr>users = [(ex_user ACTIVE)\<lparr>u_lastLogin := Some 5000\<rparr>],
      sessions = [\<lparr>s_id = 2, s_userId = 1, s_token = ex_access 5,
                   s_refreshToken = Some (ex_refresh 5), s_expiresAt = 604805000,
                   s_isActive = True\<rparr>],
      next_id = 3, storage_error = None\<rparr>"
  by code_simp


lemma ex_db_rotated_eq:
  "ex_db_rotated =
     \<lparr>users = [(ex_user ACTIVE)\<lparr>u_lastLogin := Some 5000\<rparr>],
      sessions = [\<lparr>s_id = 2, s_userId = 1, s_token = ex_access 7,
                   s_refreshToken = Some (ex_refresh 7), s_expiresAt = 604807200,
                   s_isActive = True\<rparr>],
      next_id = 3, storage_error = None\<rparr>"
  by code_simp

lemma ex_db_rotated_ok: "sessions_ok ex_db_rotated"
  by code_simp

section \<open>Session expiry\<close>

text \<open>
  Claim C10. Whatever the configuration, a session row that register, login or refresh
  adds or rewrites at time \<open>now\<close> expires at \<open>now\<close> + 604800000 ms, seven days; and
  each of them, when it succeeds, leaves such a row. \<^verbatim>\<open>JWT_REFRESH_EXPIRES_IN\<close> does
  not enter.
\<close>

theorem session_row_expires_after_seven_days:
  assumes written: "register cfg now now_refresh d valid em pw = (x, d')
                  \<or> login cfg now now_refresh d valid em pw = (x, d')
                  \<or> refresh cfg now now_refresh d body = (x, d')"
  shows "(\<forall>s \<in> set (sessions d') - set (sessions d). s_expiresAt s = now + 604800000)
       \<and> (\<forall>r. x = Inr r \<longrightarrow> (\<exists>s \<in> set (sessions d'). s_expiresAt s = now + 604800000))"
proof -
  let ?L = "now + 604800000"
  have created: "(\<forall>s \<in> set (sessions b) - set (sessions a). s_expiresAt s = ?L)
               \<and> (\<exists>s \<in> set (sessions b). s_expiresAt s = ?L)"
    if "userSession_create a uid t n (now + session_lifetime_ms) = Inr b" for a b uid t n
    using create_sessions(1) [OF that] by (auto simp: session_lifetime_ms_eq)
  have updated: "(\<forall>s \<in> set (sessions b) - set (sessions a). s_expiresAt s = ?L)
               \<and> (\<exists>s \<in> set (sessions b). s_expiresAt s = ?L)"
    if upd: "userSession_update a sid t n (now + session_lifetime_ms) = Inr b" for a b sid t n
  proof -
    let ?f = "\<lambda>s. if s_id s = sid
                   then s\<lparr>s_token := t, s_refreshToken := Some n, s_expiresAt := ?L\<rparr>
                   else s"
    have rows: "sessions b = map ?f (sessions a)"
      using update_sessions(1) [OF upd] by (simp add: session_lifetime_ms_eq)
    obtain s0 where s0: "s0 \<in> set (sessions a)" "s_id s0 = sid"
      using update_sessions(6) [OF upd] by auto
    have "?f s0 \<in> set (sessions b)"
      using s0(1) unfolding rows by simp
    moreover have "s_expiresAt (?f s0) = ?L"
      using s0(2) by simp
    ultimately have one: "\<exists>s \<in> set (sessions b). s_expiresAt s = ?L"
      by blast
    have "s_expiresAt s = ?L" if "s \<in> set (sessions b)" "s \<notin> set (sessions a)" for s
      using that unfolding rows by (auto split: if_splits)
    with one show ?thesis by blast
  qed
  from written show ?thesis
  proof (elim disjE)
    assume r: "register cfg now now_refresh d valid em pw = (x, d')"
    have new: "\<forall>s \<in> set (sessions d') - set (sessions d). s_expiresAt s = ?L"
      using register_shape [OF r] created user_create_sessions(1) by (metis Diff_iff)
    have ok: "\<exists>s \<in> set (sessions d'). s_expiresAt s = ?L" if "x = Inr r'" for r'
      using register_success [of cfg now now_refresh d valid em pw r' d'] r that created by blast
    show ?thesis using new ok by blast
  next
    assume r: "login cfg now now_refresh d valid em pw = (x, d')"
    have new: "\<forall>s \<in> set (sessions d') - set (sessions d). s_expiresAt s = ?L"
      using login_shape [OF r] created user_update_lastLogin_sessions(1) by (metis Diff_iff)
    have ok: "\<exists>s \<in> set (sessions d'). s_expiresAt s = ?L" if "x = Inr r'" for r'
      using login_success [of cfg now now_refresh d valid em pw r' d'] r that created
        user_update_lastLogin_sessions(1) by metis
    show ?thesis using new ok by blast
  next
    assume r: "refresh cfg now now_refresh d body = (x, d')"
    have new: "\<forall>s \<in> set (sessions d') - set (sessions d). s_expiresAt s = ?L"
      using refresh_shape [OF r] updated by (metis Diff_iff)
    have ok: "\<exists>s \<in> set (sessions d'). s_expiresAt s = ?L" if "x = Inr r'" for r'
      using refresh_success [of cfg now now_refresh d body r' d'] r that updated by blast
    show ?thesis using new ok by blast
  qed
qed

text \<open>
  A login at 5000 ms under a configuration whose refresh tokens live one day: the token
  expires after 86400 s, the session row after seven days.
\<close>

lemma ex_login_one_day_refresh:
  "login (ex_cfg\<lparr>refreshExpiresIn := 86400\<rparr>) 5000 5000 (ex_db ACTIVE) True ''a@x.com'' ''Aa1!aaaa''
     = (Inr (json_ok 200 ''Login successful''
               (Some (ex_access 5, Jwt ''refresh-secret'' (ex_payload USER ACTIVE) 5 86405))),
        \<lparr>users = [(ex_user ACTIVE)\<lparr>u_lastLogin := Some 5000\<rparr>],
         sessions = [\<lparr>s_id = 2, s_userId = 1, s_token = ex_access 5,
                      s_refreshToken = Some (Jwt ''refresh-secret'' (ex_payload USER ACTIVE) 5 86405),
                      s_expiresAt = 604805000, s_isActive = True\<rparr>],
         next_id = 3, storage_error = None\<rparr>)"
  by code_simp

theorem session_row_expires_after_seven_days_witness:
  "map s_expiresAt
     (sessions (snd (login (ex_cfg\<lparr>refreshExpiresIn := 86400\<rparr>) 5000 5000 (ex_db ACTIVE) True
                       ''a@x.com'' ''Aa1!aaaa'')))
     = [5000 + 604800000]
   \<and> sessions (ex_db ACTIVE) = []"
proof -
  note inst = session_row_expires_after_seven_days
    [of "ex_cfg\<lparr>refreshExpiresIn := 86400\<rparr>" 5000 5000 "ex_db ACTIVE" True "''a@x.com''"
        "''Aa1!aaaa''", OF disjI2, OF disjI1, OF ex_login_one_day_refresh]
  have a: "map s_expiresAt
     (sessions (snd (login (ex_cfg\<lparr>refreshExpiresIn := 86400\<rparr>) 5000 5000 (ex_db ACTIVE) True
                       ''a@x.com'' ''Aa1!aaaa'')))
     = [5000 + 604800000]"
    by (simp add: ex_login_one_day_refresh)
  have b: "sessions (ex_db ACTIVE) = []"
    by (simp add: ex_db_def)
  from inst a b show ?thesis by blast
qed

section \<open>Refresh requests\<close>

lemma status_errorHandler_AppError [simp]: "status (errorHandler (AppError m st b c)) = st"
  by (simp add: errorHandler_def)

lemma refresh_unmatched:
  assumes up: "storage_error d = None" and nonempty: "tok \<noteq> Opaque []"
      and none: "\<forall>s \<in> set (sessions d). s_refreshToken s = Some tok \<longrightarrow> \<not> s_isActive s"
  shows "refresh cfg now now_refresh d (Some tok)
           = (Inl (AppError ''Invalid refresh token'' 401 True ''INVALID_REFRESH_TOKEN''), d)"
proof -
  have "find (\<lambda>s. s_refreshToken s = Some tok \<and> s_isActive s \<and> s_expiresAt s > now)
          (sessions d) = None"
    using none by (auto simp: find_None_iff)
  then have "refresh_lookup cfg now now_refresh d tok = Inl (JwtError JsonWebTokenError)
           \<or> refresh_lookup cfg now now_refresh d tok = Inl (JwtError TokenExpiredError)
           \<or> refresh_lookup cfg now now_refresh d tok
               = Inl (AppError ''Invalid refresh token'' 401 True ''INVALID_REFRESH_TOKEN'')"
    using up unfolding refresh_lookup_def userSession_findFirst_def
    by (cases "jwt_verify tok (refreshSecret cfg) now"; cases tok)
       (auto split: if_splits)
  then show ?thesis
    using nonempty by (auto simp: refresh_def refresh_finish_def refresh_catch_def)
qed

section \<open>Status codes of failures\<close>

lemma toAppError_unclassified:
  assumes "nm \<notin> {''MongoError'', ''ValidationError'', ''CastError'', ''JsonWebTokenError'',
                  ''TokenExpiredError''}"
      and "\<not> startsWith ctor ''Stripe''"
  shows "toAppError (OtherError nm ctor c ty) = (500, False, ''INTERNAL_ERROR'')"
  using assms by simp

text \<open>
  Claim C8. A missing or non-bearer header, and a malformed or expired access token,
  are answered 401; a valid access token, or the refresh token of an active session, of
  an account that is not ACTIVE, 403; a request the rate limiter stops, 429; a refresh token that does not verify or matches no active
  unexpired session, 401; a failure the code does not classify (here the store
  rejecting with an error of no known kind), 500, from the middleware's own
  \<^verbatim>\<open>catch\<close> and from the error handler.
\<close>

theorem failure_status_mapping:
  assumes missing: "authorization req0 = None \<or> authorization req0 = Some (Scheme sch)"
      and invalid: "authorization req1 = Some (Bearer t1)"
                   "jwt_verify t1 (secret cfg) now = Inl e1"
      and inactive: "authorization req2 = Some (Bearer t2)"
                    "jwt_verify t2 (secret cfg) now = Inr p2"
                    "storage_error d = None"
                    "find (\<lambda>u. u_id u = userId p2) (users d) = Some u2"
                    "u_subscriptionStatus u2 \<noteq> ACTIVE"
      and limited: "userRateLimit maxRequests windowMs now userRequests req3
                      = (Respond r3, userRequests')"
      and stale: "tok \<noteq> Opaque []"
                 "jwt_verify tok (refreshSecret cfg) now = Inl e4
                  \<or> find (\<lambda>s. s_refreshToken s = Some tok \<and> s_isActive s \<and> s_expiresAt s > now)
                       (sessions d) = None"
      and unclassified:
                 "storage_error d5 = Some (OtherError nm ctor c ty)"
                 "nm \<notin> {''MongoError'', ''ValidationError'', ''CastError'',
                         ''JsonWebTokenError'', ''TokenExpiredError''}"
                 "\<not> startsWith ctor ''Stripe''"
                 "jwt_verify t5 (refreshSecret cfg) now = Inr p5"
      and suspended:
                 "jwt_verify t6 (refreshSecret cfg) now = Inr p6"
                 "storage_error d6 = None"
                 "find (\<lambda>s. s_refreshToken s = Some t6 \<and> s_isActive s \<and> s_expiresAt s > now)
                    (sessions d6) = Some s6"
                 "find (\<lambda>u. u_id u = s_userId s6) (users d6) = Some u6"
                 "u_subscriptionStatus u6 \<noteq> ACTIVE"
  shows "mw_status (fst (authMiddleware cfg now d req0)) = Some 401
       \<and> mw_status (fst (authMiddleware cfg now d req1)) = Some 401
       \<and> mw_status (fst (authMiddleware cfg now d req2)) = Some 403
       \<and> status (fst (route_refresh cfg now now_refresh d6 (Some t6))) = 403
       \<and> status r3 = 429
       \<and> status (fst (route_refresh cfg now now_refresh d (Some tok))) = 401
       \<and> mw_status (fst (authMiddleware cfg now d5 req2)) = Some 500
       \<and> status (fst (route_refresh cfg now now_refresh d5 (Some t5))) = 500"
proof (intro conjI)
  show "mw_status (fst (authMiddleware cfg now d req0)) = Some 401"
    using missing by (auto simp: authMiddleware_def json_error_def)
  show "mw_status (fst (authMiddleware cfg now d req1)) = Some 401"
    using invalid by (simp add: authMiddleware_def auth_try_def auth_catch_def json_error_def)
  show "mw_status (fst (authMiddleware cfg now d req2)) = Some 403"
    using inactive
    by (simp add: authMiddleware_def auth_try_def user_findUnique_def json_error_def)
  show "status (fst (route_refresh cfg now now_refresh d6 (Some t6))) = 403"
  proof -
    have ne: "t6 \<noteq> Opaque []" using suspended(1) by auto
    have "refresh_lookup cfg now now_refresh d6 t6
            = Inl (AppError ''Account is not active'' 403 True ''ACCOUNT_INACTIVE'')"
      using suspended by (simp add: refresh_lookup_def userSession_findFirst_def)
    then show ?thesis
      using ne
      by (simp add: route_refresh_def refresh_def refresh_finish_def refresh_catch_def)
  qed
  show "status r3 = 429"
    using limited
    by (auto simp: userRateLimit_def Let_def json_error_def split: option.splits if_splits)
  show "status (fst (route_refresh cfg now now_refresh d (Some tok))) = 401"
  proof -
    have "(\<exists>e. refresh_lookup cfg now now_refresh d tok = Inl (JwtError e))
        \<or> refresh_lookup cfg now now_refresh d tok
             = Inl (AppError ''Invalid refresh token'' 401 True ''INVALID_REFRESH_TOKEN'')"
      using stale(2) inactive(3) unfolding refresh_lookup_def userSession_findFirst_def
      by (cases "jwt_verify tok (refreshSecret cfg) now") auto
    then show ?thesis
      using stale(1)
      by (auto simp: route_refresh_def refresh_def refresh_finish_def refresh_catch_def)
  qed
  show "mw_status (fst (authMiddleware cfg now d5 req2)) = Some 500"
    using unclassified(1) inactive(1,2)
    by (simp add: authMiddleware_def auth_try_def user_findUnique_def auth_catch_def
        json_error_def)
  show "status (fst (route_refresh cfg now now_refresh d5 (Some t5))) = 500"
  proof -
    have ne: "t5 \<noteq> Opaque []" using unclassified(4) by auto
    have "refresh_lookup cfg now now_refresh d5 t5 = Inl (OtherError nm ctor c ty)"
      using unclassified(1,4) by (simp add: refresh_lookup_def userSession_findFirst_def)
    then show ?thesis
      using ne toAppError_unclassified [OF unclassified(2,3)]
      by (simp add: route_refresh_def refresh_def refresh_finish_def refresh_catch_def
          errorHandler_def)
  qed
qed

text \<open>
  A suspended account without session, an exhausted limiter, and a store that is down.
\<close>

theorem failure_status_mapping_witness:
  "mw_status (fst (authMiddleware ex_cfg 6000 (ex_db SUSPENDED)
                     \<lparr>authorization = None, req_user = None\<rparr>)) = Some 401
   \<and> mw_status (fst (authMiddleware ex_cfg 6000 (ex_db SUSPENDED) (ex_bearer (Opaque ''x''))))
       = Some 401
   \<and> mw_status (fst (authMiddleware ex_cfg 6000 (ex_db SUSPENDED) (ex_bearer (ex_access 5))))
       = Some 403
   \<and> status (fst (route_refresh ex_cfg 6000 6000 ex_db_suspended (Some (ex_refresh 5)))) = 403
   \<and> mw_status (fst (userRateLimit 5 60000 6000 ex_limit_reached (ex_authed (ex_access 5))))
       = Some 429
   \<and> status (fst (route_refresh ex_cfg 6000 6000 (ex_db SUSPENDED) (Some (ex_refresh 5)))) = 401
   \<and> mw_status (fst (authMiddleware ex_cfg 6000 ex_db_down (ex_bearer (ex_access 5))))
       = Some 500
   \<and> status (fst (route_refresh ex_cfg 6000 6000 ex_db_down (Some (ex_refresh 5)))) = 500"
proof -
  let ?lim = "userRateLimit 5 60000 6000 ex_limit_reached (ex_authed (ex_access 5))"
  let ?r3 = "(json_error 429 ''Too Many Requests'' ''Rate limit exceeded for your account'')
               \<lparr>retryAfter := Some 55\<rparr>"
  have missing: "authorization \<lparr>authorization = None, req_user = None\<rparr> = None
               \<or> authorization \<lparr>authorization = None, req_user = None\<rparr> = Some (Scheme [])"
    by simp
  have invalid: "authorization (ex_bearer (Opaque ''x'')) = Some (Bearer (Opaque ''x''))"
    "jwt_verify (Opaque ''x'') (secret ex_cfg) 6000 = Inl JsonWebTokenError"
    by (simp_all add: ex_bearer_def)
  have inactive: "authorization (ex_bearer (ex_access 5)) = Some (Bearer (ex_access 5))"
    "jwt_verify (ex_access 5) (secret ex_cfg) 6000 = Inr (ex_payload USER ACTIVE)"
    "storage_error (ex_db SUSPENDED) = None"
    "find (\<lambda>u. u_id u = userId (ex_payload USER ACTIVE)) (users (ex_db SUSPENDED))
       = Some (ex_user SUSPENDED)"
    "u_subscriptionStatus (ex_user SUSPENDED) \<noteq> ACTIVE"
    by (simp_all add: ex_bearer_def ex_access_def ex_cfg_def ex_db_def ex_user_def ex_payload_def)
  have limited: "?lim = (Respond ?r3, ex_limit_reached)"
    by (simp add: userRateLimit_def ex_limit_reached_def ex_authed_def select_user_def
        ex_user_def Let_def ceil_div_1000_def)
  have stale: "ex_refresh 5 \<noteq> Opaque []"
    "jwt_verify (ex_refresh 5) (refreshSecret ex_cfg) 6000 = Inl JsonWebTokenError
     \<or> find (\<lambda>s. s_refreshToken s = Some (ex_refresh 5) \<and> s_isActive s \<and> s_expiresAt s > 6000)
          (sessions (ex_db SUSPENDED)) = None"
    by (simp_all add: ex_refresh_def ex_db_def)
  have unclassified: "storage_error ex_db_down = Some (OtherError ''Error'' ''Error'' None [])"
    "''Error'' \<notin> {''MongoError'', ''ValidationError'', ''CastError'', ''JsonWebTokenError'',
                    ''TokenExpiredError''}"
    "\<not> startsWith ''Error'' ''Stripe''"
    "jwt_verify (ex_refresh 5) (refreshSecret ex_cfg) 6000 = Inr (ex_payload USER ACTIVE)"
    by (simp_all add: ex_db_down_def startsWith_def ex_refresh_def ex_cfg_def)
  have suspended:
    "jwt_verify (ex_refresh 5) (refreshSecret ex_cfg) 6000 = Inr (ex_payload USER ACTIVE)"
    "storage_error ex_db_suspended = None"
    "find (\<lambda>s. s_refreshToken s = Some (ex_refresh 5) \<and> s_isActive s \<and> s_expiresAt s > 6000)
       (sessions ex_db_suspended)
       = Some \<lparr>s_id = 2, s_userId = 1, s_token = ex_access 5,
                 s_refreshToken = Some (ex_refresh 5), s_expiresAt = 604805000,
                 s_isActive = True\<rparr>"
    "find (\<lambda>u. u_id u = s_userId \<lparr>s_id = 2, s_userId = 1, s_token = ex_access 5,
                 s_refreshToken = Some (ex_refresh 5), s_expiresAt = 604805000,
                 s_isActive = True\<rparr>) (users ex_db_suspended)
       = Some (ex_user SUSPENDED)"
    "u_subscriptionStatus (ex_user SUSPENDED) \<noteq> ACTIVE"
    by (simp_all add: ex_db_suspended_def ex_db_login_eq ex_refresh_def ex_cfg_def ex_user_def)
  note inst = failure_status_mapping [OF missing invalid inactive limited stale unclassified
      suspended]
  have "mw_status (fst ?lim) = Some 429"
    using inst limited by simp
  with inst show ?thesis by simp
qed

section \<open>Rotation in sequence\<close>

text \<open>
  Claim C2. A first rotation that succeeds is to replace the stored refresh token, so
  that a second rotation presenting the original token is refused with 401. The code
  does not keep this: \<^verbatim>\<open>jwt.sign\<close> stamps \<^verbatim>\<open>iat\<close> in whole seconds and adds no nonce, so a
  rotation in the clock second in which the presented token was issued signs the same
  payload with the same secret and the same \<^verbatim>\<open>iat\<close>, and writes back the token it was
  given. A login at 5000 ms returns a pair; a rotation at 5200 ms answers 200 with the
  same pair and leaves the row holding the original refresh token; a second rotation
  with the original token at 5400 ms answers 200 again.
\<close>

theorem refresh_same_second_reusable:
  "tokens (fst (route_login ex_cfg 5000 5000 (ex_db ACTIVE) True ''a@x.com'' ''Aa1!aaaa''))
     = Some (ex_access 5, ex_refresh 5)
   \<and> fst (route_refresh ex_cfg 5200 5200 ex_db_login (Some (ex_refresh 5)))
     = json_ok 200 ''Tokens refreshed successfully'' (Some (ex_access 5, ex_refresh 5))
   \<and> map s_refreshToken
       (sessions (snd (route_refresh ex_cfg 5200 5200 ex_db_login (Some (ex_refresh 5)))))
     = [Some (ex_refresh 5)]
   \<and> fst (route_refresh ex_cfg 5400 5400
            (snd (route_refresh ex_cfg 5200 5200 ex_db_login (Some (ex_refresh 5))))
            (Some (ex_refresh 5)))
     = json_ok 200 ''Tokens refreshed successfully'' (Some (ex_access 5, ex_refresh 5))"
  by code_simp

text \<open>
  The two tokens of a pair are signed one after the other, each with its own \<^verbatim>\<open>iat\<close>,
  and only the access token has a unique index. A login whose two signatures straddle
  the turn of second 6 and a login within second 6 store different access tokens and
  the same refresh token. After the first session is rotated at 8 s, the original
  refresh token is accepted once more, at 9 s, through the row of the second session.
\<close>

lemma refresh_shared_token_reusable:
  "map s_token (sessions (snd (route_login ex_cfg 6000 6000
                                 (snd (route_login ex_cfg 5999 6000 (ex_db ACTIVE) True
                                         ''a@x.com'' ''Aa1!aaaa''))
                                 True ''a@x.com'' ''Aa1!aaaa'')))
     = [ex_access 5, ex_access 6]
   \<and> map s_refreshToken
       (sessions (snd (route_login ex_cfg 6000 6000
                         (snd (route_login ex_cfg 5999 6000 (ex_db ACTIVE) True
                                 ''a@x.com'' ''Aa1!aaaa''))
                         True ''a@x.com'' ''Aa1!aaaa'')))
     = [Some (ex_refresh 6), Some (ex_refresh 6)]
   \<and> status (fst (route_refresh ex_cfg 8000 8000
                    (snd (route_login ex_cfg 6000 6000
                            (snd (route_login ex_cfg 5999 6000 (ex_db ACTIVE) True
                                    ''a@x.com'' ''Aa1!aaaa''))
                            True ''a@x.com'' ''Aa1!aaaa''))
                    (Some (ex_refresh 6)))) = 200
   \<and> status (fst (route_refresh ex_cfg 9000 9000
                    (snd (route_refresh ex_cfg 8000 8000
                            (snd (route_login ex_cfg 6000 6000
                                    (snd (route_login ex_cfg 5999 6000 (ex_db ACTIVE) True
                                            ''a@x.com'' ''Aa1!aaaa''))
                                    True ''a@x.com'' ''Aa1!aaaa''))
                            (Some (ex_refresh 6))))
                    (Some (ex_refresh 6)))) = 200"
  by code_simp

section \<open>Overlapping refresh requests\<close>

lemma refresh_lookup_Inr:
  assumes "refresh_lookup cfg now now_refresh d tok = Inr (sid, a, n)"
  shows "\<exists>session u.
           storage_error d = None
         \<and> find (\<lambda>s. s_refreshToken s = Some tok \<and> s_isActive s \<and> s_expiresAt s > now)
                (sessions d) = Some session
         \<and> s_id session = sid
         \<and> generateTokens cfg now now_refresh (select_user u) = (a, n)"
  using assms unfolding refresh_lookup_def userSession_findFirst_def
  by (auto split: if_splits sum.splits option.splits prod.splits)

lemma update_succeeds:
  assumes "storage_error d = None" "sid \<in> s_id ` set (sessions d)"
      and "a \<notin> s_token ` {s \<in> set (sessions d). s_id s \<noteq> sid}"
  shows "userSession_update d sid a n x
           = Inr (d\<lparr>sessions := map (\<lambda>s. if s_id s = sid
                                         then s\<lparr>s_token := a, s_refreshToken := Some n,
                                                s_expiresAt := x\<rparr>
                                         else s) (sessions d)\<rparr>)"
  using assms by (simp add: userSession_update_def)

lemma rewritten_row:
  assumes "s \<in> set (map (\<lambda>s. if s_id s = sid
                              then s\<lparr>s_token := a, s_refreshToken := Some n, s_expiresAt := x\<rparr>
                              else s) xs)"
      and "s_id s = sid"
  shows "s_token s = a \<and> s_refreshToken s = Some n"
proof -
  let ?f = "\<lambda>s. if s_id s = sid
                 then s\<lparr>s_token := a, s_refreshToken := Some n, s_expiresAt := x\<rparr> else s"
  from assms(1) have "s \<in> ?f ` set xs"
    by (simp only: set_map)
  then obtain s0 where "s = ?f s0"
    by blast
  with assms(2) show ?thesis by (cases "s_id s0 = sid") simp_all
qed

text \<open>
  Claim C1, as the code has it. The handler looks the session up and then updates it by
  id alone: a read followed by a write, with no condition on the refresh token in the
  write. When two requests with one refresh token both look up the same session before
  either updates it, and neither new access token is the stored access token of another
  row, both answer 200 (Tokens refreshed successfully), each with its own pair, and the
  session row ends holding the pair of the later update.
\<close>

theorem refresh_overlapped_both_succeed:
  assumes lookA: "refresh_lookup cfg nowA nowA_refresh d tok = Inr (sid, a1, n1)"
      and lookB: "refresh_lookup cfg nowB nowB_refresh d tok = Inr (sid, a2, n2)"
      and freeA: "a1 \<notin> s_token ` {s \<in> set (sessions d). s_id s \<noteq> sid}"
      and freeB: "a2 \<notin> s_token ` {s \<in> set (sessions d). s_id s \<noteq> sid}"
  shows "\<exists>d'. refresh_overlapped cfg nowA nowA_refresh nowB nowB_refresh d tok
                = (Inr (json_ok 200 ''Tokens refreshed successfully'' (Some (a1, n1))),
                   Inr (json_ok 200 ''Tokens refreshed successfully'' (Some (a2, n2))), d')
            \<and> (\<exists>s \<in> set (sessions d'). s_id s = sid)
            \<and> (\<forall>s \<in> set (sessions d'). s_id s = sid \<longrightarrow>
                  s_token s = a2 \<and> s_refreshToken s = Some n2)"
proof -
  from refresh_lookup_Inr [OF lookA] obtain sA where
    up: "storage_error d = None"
    and fA: "find (\<lambda>s. s_refreshToken s = Some tok \<and> s_isActive s \<and> s_expiresAt s > nowA)
               (sessions d) = Some sA" and idA: "s_id sA = sid"
    by blast
  have mA: "sA \<in> set (sessions d)"
    using fA by (auto simp: find_Some_iff)
  let ?LA = "nowA + session_lifetime_ms" and ?LB = "nowB + session_lifetime_ms"
  let ?fA = "\<lambda>s. if s_id s = sid
                  then s\<lparr>s_token := a1, s_refreshToken := Some n1, s_expiresAt := ?LA\<rparr> else s"
  let ?fB = "\<lambda>s. if s_id s = sid
                  then s\<lparr>s_token := a2, s_refreshToken := Some n2, s_expiresAt := ?LB\<rparr> else s"
  let ?d1 = "d\<lparr>sessions := map ?fA (sessions d)\<rparr>"
  let ?d2 = "?d1\<lparr>sessions := map ?fB (sessions ?d1)\<rparr>"
  have inA: "sid \<in> s_id ` set (sessions d)"
    using mA idA by auto
  have u1: "userSession_update d sid a1 n1 ?LA = Inr ?d1"
    using update_succeeds [OF up inA freeA] .
  have "map s_id (sessions ?d1) = map s_id (sessions d)"
    by simp
  then have ids1: "s_id ` set (sessions ?d1) = s_id ` set (sessions d)"
    by (metis set_map)
  have others: "{s \<in> set (sessions ?d1). s_id s \<noteq> sid} = {s \<in> set (sessions d). s_id s \<noteq> sid}"
  proof (intro set_eqI iffI)
    fix s assume "s \<in> {s \<in> set (sessions ?d1). s_id s \<noteq> sid}"
    then obtain s0 where "s0 \<in> set (sessions d)" "s = ?fA s0" "s_id s \<noteq> sid"
      by auto
    then show "s \<in> {s \<in> set (sessions d). s_id s \<noteq> sid}"
      by (cases "s_id s0 = sid") simp_all
  next
    fix s assume a: "s \<in> {s \<in> set (sessions d). s_id s \<noteq> sid}"
    then have "?fA s = s" by simp
    moreover have "?fA s \<in> set (sessions ?d1)" using a by simp
    ultimately show "s \<in> {s \<in> set (sessions ?d1). s_id s \<noteq> sid}"
      using a by simp
  qed
  have u2: "userSession_update ?d1 sid a2 n2 ?LB = Inr ?d2"
    using update_succeeds [of ?d1 sid a2 n2 ?LB] up inA freeB ids1 others by simp
  have run: "refresh_overlapped cfg nowA nowA_refresh nowB nowB_refresh d tok
               = (Inr (json_ok 200 ''Tokens refreshed successfully'' (Some (a1, n1))),
                  Inr (json_ok 200 ''Tokens refreshed successfully'' (Some (a2, n2))), ?d2)"
    using lookA lookB u1 u2
    by (simp add: refresh_overlapped_def refresh_finish_def refresh_commit_def)
  have rows2: "sessions ?d2 = map ?fB (map ?fA (sessions d))"
    by simp
  have row: "\<exists>s \<in> set (sessions ?d2). s_id s = sid"
  proof -
    let ?s = "sA\<lparr>s_token := a1, s_refreshToken := Some n1, s_expiresAt := ?LA\<rparr>
                \<lparr>s_token := a2, s_refreshToken := Some n2, s_expiresAt := ?LB\<rparr>"
    have "?fB (?fA sA) \<in> set (map ?fB (map ?fA (sessions d)))"
      unfolding set_map using mA by (intro imageI)
    moreover have "?fB (?fA sA) = ?s"
      using idA by simp
    ultimately have "?s \<in> set (sessions ?d2)"
      by (simp only: rows2)
    moreover have "s_id ?s = sid"
      using idA by simp
    ultimately show ?thesis by (rule bexI [rotated])
  qed
  have last: "\<forall>s \<in> set (sessions ?d2). s_id s = sid \<longrightarrow>
                s_token s = a2 \<and> s_refreshToken s = Some n2"
  proof (intro ballI impI)
    fix s assume s: "s \<in> set (sessions ?d2)" "s_id s = sid"
    show "s_token s = a2 \<and> s_refreshToken s = Some n2"
      using rewritten_row [where s = s and sid = sid and a = a2 and n = n2 and x = ?LB
          and xs = "map ?fA (sessions d)"] s by simp
  qed
  show ?thesis
    using run row last by (intro exI [of _ ?d2] conjI)
qed

lemma ex_lookup_70:
  "refresh_lookup ex_cfg 70000 70000 ex_db_login (ex_refresh 5)
     = Inr (2, ex_access 70, ex_refresh 70)"
  by code_simp

lemma ex_lookup_71:
  "refresh_lookup ex_cfg 71000 71000 ex_db_login (ex_refresh 5)
     = Inr (2, ex_access 71, ex_refresh 71)"
  by code_simp

text \<open>
  The session of a login in second 5; request A reads the clock at 70 s, request B at
  71 s. Both lookups find session 2; the row ends with the pair of B.
\<close>

theorem refresh_overlapped_both_succeed_witness:
  "refresh_lookup ex_cfg 70000 70000 ex_db_login (ex_refresh 5)
     = Inr (2, ex_access 70, ex_refresh 70)
   \<and> refresh_lookup ex_cfg 71000 71000 ex_db_login (ex_refresh 5)
       = Inr (2, ex_access 71, ex_refresh 71)
   \<and> fst (refresh_overlapped ex_cfg 70000 70000 71000 71000 ex_db_login (ex_refresh 5))
       = Inr (json_ok 200 ''Tokens refreshed successfully''
                (Some (ex_access 70, ex_refresh 70)))
   \<and> fst (snd (refresh_overlapped ex_cfg 70000 70000 71000 71000 ex_db_login (ex_refresh 5)))
       = Inr (json_ok 200 ''Tokens refreshed successfully''
                (Some (ex_access 71, ex_refresh 71)))
   \<and> map s_refreshToken
       (sessions (snd (snd (refresh_overlapped ex_cfg 70000 70000 71000 71000 ex_db_login
                              (ex_refresh 5)))))
       = [Some (ex_refresh 71)]"
proof -
  have freeA: "ex_access 70 \<notin> s_token ` {s \<in> set (sessions ex_db_login). s_id s \<noteq> 2}"
    and freeB: "ex_access 71 \<notin> s_token ` {s \<in> set (sessions ex_db_login). s_id s \<noteq> 2}"
    by (auto simp: ex_db_login_eq)
  from refresh_overlapped_both_succeed [OF ex_lookup_70 ex_lookup_71 freeA freeB]
  obtain d' where
    run: "refresh_overlapped ex_cfg 70000 70000 71000 71000 ex_db_login (ex_refresh 5)
            = (Inr (json_ok 200 ''Tokens refreshed successfully''
                      (Some (ex_access 70, ex_refresh 70))),
               Inr (json_ok 200 ''Tokens refreshed successfully''
                      (Some (ex_access 71, ex_refresh 71))), d')"
    by blast
  have rows: "map s_refreshToken
       (sessions (snd (snd (refresh_overlapped ex_cfg 70000 70000 71000 71000 ex_db_login
                              (ex_refresh 5)))))
       = [Some (ex_refresh 71)]"
    by code_simp
  from run ex_lookup_70 ex_lookup_71 rows show ?thesis by simp
qed

text \<open>
  Against C1 as stated: the two overlapping requests of the example both answer 200.
\<close>

theorem refresh_overlapped_two_successes:
  "fst (refresh_overlapped ex_cfg 70000 70000 71000 71000 ex_db_login (ex_refresh 5))
     = Inr (json_ok 200 ''Tokens refreshed successfully'' (Some (ex_access 70, ex_refresh 70)))
   \<and> fst (snd (refresh_overlapped ex_cfg 70000 70000 71000 71000 ex_db_login (ex_refresh 5)))
     = Inr (json_ok 200 ''Tokens refreshed successfully'' (Some (ex_access 71, ex_refresh 71)))"
  by code_simp

section \<open>Logout\<close>

lemma authMiddleware_Next:
  assumes "authMiddleware cfg now d req = (Next req1, d1)"
  shows "\<exists>token decoded u.
           authorization req = Some (Bearer token)
         \<and> jwt_verify token (secret cfg) now = Inr decoded
         \<and> storage_error d = None
         \<and> find (\<lambda>u. u_id u = userId decoded) (users d) = Some u
         \<and> u_subscriptionStatus u = ACTIVE
         \<and> req1 = req\<lparr>req_user := Some (select_user u)\<rparr>
         \<and> user_update_lastLogin d (u_id u) now = Inr d1"
  using assms unfolding authMiddleware_def auth_try_def user_findUnique_def
  by (auto split: option.splits auth_header.splits sum.splits if_splits)


lemma find_id: "find (\<lambda>u. u_id u = uid) us = Some u \<Longrightarrow> u_id u = uid"
  by (auto simp: find_Some_iff)





section \<open>Password change\<close>

lemma authMiddleware_Respond_not_ok:
  assumes "authMiddleware cfg now d req = (Respond r, d')"
  shows "message r \<noteq> ''Password changed successfully''"
  using assms unfolding authMiddleware_def auth_try_def auth_catch_def json_error_def
  by (auto split: option.splits auth_header.splits sum.splits if_splits)

lemma change_password_success:
  assumes "change_password cfg d req valid cur new = (Inr r, d')"
      and "authorization req = Some (Bearer currentToken)"
  shows "\<exists>ru u d1.
           req_user req = Some ru
         \<and> find (\<lambda>u. u_id u = ru_id ru) (users d) = Some u
         \<and> user_update_passwordHash d (u_id u) (hashPassword cfg new) = Inr d1
         \<and> userSession_deactivateMany d1
              (\<lambda>s. s_userId s = u_id u \<and> s_isActive s \<and> s_token s \<noteq> currentToken) = Inr d'"
  using assms unfolding change_password_def user_findUnique_def
  by (auto split: if_splits sum.splits option.splits)

lemma message_errorHandler [simp]: "message (errorHandler e) = []"
  by (cases "toAppError e") (simp add: errorHandler_def)

text \<open>
  What the handler does keep. When change-password answers 200 (Password changed
  successfully): every session of the account whose stored access token is not the
  bearer token of the request is inactive; the row whose stored access token is the
  bearer token, and the rows of other accounts, are as they were; and a non-empty refresh
  token that only sessions of the account other than the bearer's row hold is refused at
  any later time with INVALID_REFRESH_TOKEN, status 401.
\<close>

lemma change_password_revokes_other_sessions:
  assumes changed: "route_change_password cfg now d req valid cur new
                      = (json_ok 200 ''Password changed successfully'' None, d')"
  shows "\<exists>currentToken ru.
           authorization req = Some (Bearer currentToken)
         \<and> attached (fst (authMiddleware cfg now d req)) = Some ru
         \<and> (\<forall>s \<in> set (sessions d'). s_userId s = ru_id ru \<and> s_token s \<noteq> currentToken
               \<longrightarrow> \<not> s_isActive s)
         \<and> (\<forall>s \<in> set (sessions d). s_token s = currentToken \<or> s_userId s \<noteq> ru_id ru
               \<longrightarrow> s \<in> set (sessions d'))
         \<and> (\<forall>tok t t'.
               tok \<noteq> Opaque []
             \<and> (\<forall>s \<in> set (sessions d). s_refreshToken s = Some tok
                    \<longrightarrow> s_userId s = ru_id ru \<and> s_token s \<noteq> currentToken)
               \<longrightarrow> refresh cfg t t' d' (Some tok)
                     = (Inl (AppError ''Invalid refresh token'' 401 True ''INVALID_REFRESH_TOKEN''),
                        d'))"
proof -
  let ?h = "\<lambda>d' req'. change_password cfg d' req' valid cur new"
  obtain m da where am: "authMiddleware cfg now d req = (m, da)"
    by (cases "authMiddleware cfg now d req") auto
  have "\<exists>reqa. m = Next reqa"
  proof (cases m)
    case (Respond r)
    with am changed authMiddleware_Respond_not_ok [of cfg now d req r da] show ?thesis
      by (simp add: route_change_password_def authenticated_def json_ok_def)
  qed simp
  then obtain reqa where m: "m = Next reqa" by blast
  from authMiddleware_Next [OF am [unfolded m]] obtain currentToken u where
    hdr: "authorization req = Some (Bearer currentToken)"
    and reqa: "reqa = req\<lparr>req_user := Some (select_user u)\<rparr>"
    and da: "user_update_lastLogin d (u_id u) now = Inr da"
    by blast
  note sa = user_update_lastLogin_sessions [OF da]
  have fin: "finish (?h da reqa) = (json_ok 200 ''Password changed successfully'' None, d')"
    using changed am m by (simp add: route_change_password_def authenticated_def)
  obtain x dx where hx: "?h da reqa = (x, dx)" by (cases "?h da reqa") auto
  have "\<exists>r. x = Inr r"
  proof (cases x)
    case (Inl e)
    with fin hx have "message (errorHandler e) = ''Password changed successfully''"
      by (simp add: json_ok_def)
    then show ?thesis by simp
  qed simp
  with fin hx have succ: "?h da reqa = (Inr (json_ok 200 ''Password changed successfully'' None), d')"
    by auto
  let ?ru = "select_user u"
  let ?wh = "\<lambda>s. s_userId s = ru_id ?ru \<and> s_isActive s \<and> s_token s \<noteq> currentToken"
  let ?f = "\<lambda>s. if ?wh s then s\<lparr>s_isActive := False\<rparr> else s"
  have hdra: "authorization reqa = Some (Bearer currentToken)"
    using hdr reqa by simp
  from change_password_success [OF succ hdra] reqa obtain u' db where
    fu': "find (\<lambda>u. u_id u = ru_id ?ru) (users da) = Some u'"
    and db: "user_update_passwordHash da (u_id u') (hashPassword cfg new) = Inr db"
    and de: "userSession_deactivateMany db
               (\<lambda>s. s_userId s = u_id u' \<and> s_isActive s \<and> s_token s \<noteq> currentToken) = Inr d'"
    by auto
  have "u_id u' = ru_id ?ru" using find_id [OF fu'] .
  with de have de': "userSession_deactivateMany db ?wh = Inr d'" by simp
  note sb = user_update_passwordHash_sessions [OF db]
  have rows: "sessions d' = map ?f (sessions d)"
    using deactivateMany_sessions(1) [OF de'] sb sa by simp
  have up: "storage_error d' = None"
    using deactivateMany_sessions(4) [OF de'] .
  have att: "attached (fst (authMiddleware cfg now d req)) = Some ?ru"
    using am m reqa by simp
  have others: "\<not> s_isActive s"
    if "s \<in> set (sessions d')" "s_userId s = ru_id ?ru" "s_token s \<noteq> currentToken" for s
  proof -
    from that(1) obtain s0 where s0: "s0 \<in> set (sessions d)" "s = ?f s0"
      unfolding rows by auto
    show ?thesis
    proof (cases "?wh s0")
      case True
      with s0 show ?thesis by simp
    next
      case False
      with s0 have "s = s0" by simp
      with that False show ?thesis by simp
    qed
  qed
  have kept: "s \<in> set (sessions d')"
    if "s \<in> set (sessions d)" "s_token s = currentToken \<or> s_userId s \<noteq> ru_id ?ru" for s
  proof -
    have "?f s = s" using that(2) by auto
    moreover have "?f s \<in> set (sessions d')" using that(1) unfolding rows by simp
    ultimately show ?thesis by simp
  qed
  have stale: "refresh cfg t t' d' (Some tok)
                 = (Inl (AppError ''Invalid refresh token'' 401 True ''INVALID_REFRESH_TOKEN''), d')"
    if nonempty: "tok \<noteq> Opaque []"
      and held: "\<forall>s \<in> set (sessions d). s_refreshToken s = Some tok
                    \<longrightarrow> s_userId s = ru_id ?ru \<and> s_token s \<noteq> currentToken"
    for tok t t'
  proof -
    have "\<not> s_isActive s'" if s': "s' \<in> set (sessions d')" "s_refreshToken s' = Some tok" for s'
    proof -
      from s'(1) obtain s0 where s0: "s0 \<in> set (sessions d)" "s' = ?f s0"
        unfolding rows by auto
      then have "s_refreshToken s0 = Some tok" using s'(2) by (simp split: if_splits)
      with held s0(1) have "s_userId s0 = ru_id ?ru" "s_token s0 \<noteq> currentToken"
        by auto
      then have "s_userId s' = ru_id ?ru" "s_token s' \<noteq> currentToken"
        using s0(2) by (simp_all split: if_splits)
      then show ?thesis using others [OF s'(1)] by blast
    qed
    then show ?thesis using refresh_unmatched [OF up nonempty] by blast
  qed
  show ?thesis
  proof (intro exI [of _ currentToken] exI [of _ ?ru] conjI)
    show "authorization req = Some (Bearer currentToken)" by (rule hdr)
    show "attached (fst (authMiddleware cfg now d req)) = Some ?ru" by (rule att)
    show "\<forall>s \<in> set (sessions d'). s_userId s = ru_id ?ru \<and> s_token s \<noteq> currentToken
            \<longrightarrow> \<not> s_isActive s"
      using others by blast
    show "\<forall>s \<in> set (sessions d). s_token s = currentToken \<or> s_userId s \<noteq> ru_id ?ru
            \<longrightarrow> s \<in> set (sessions d')"
      using kept by blast
    show "\<forall>tok t t'.
               tok \<noteq> Opaque []
             \<and> (\<forall>s \<in> set (sessions d). s_refreshToken s = Some tok
                    \<longrightarrow> s_userId s = ru_id ?ru \<and> s_token s \<noteq> currentToken)
               \<longrightarrow> refresh cfg t t' d' (Some tok)
                     = (Inl (AppError ''Invalid refresh token'' 401 True ''INVALID_REFRESH_TOKEN''),
                        d')"
      using stale by blast
  qed
qed

lemma ex_db_two_eq:
  "ex_db_two =
     \<lparr>users = [(ex_user ACTIVE)\<lparr>u_lastLogin := Some 9000\<rparr>],
      sessions = [\<lparr>s_id = 2, s_userId = 1, s_token = ex_access 5,
                   s_refreshToken = Some (ex_refresh 5), s_expiresAt = 604805000,
                   s_isActive = True\<rparr>,
                  \<lparr>s_id = 3, s_userId = 1, s_token = ex_access 9,
                   s_refreshToken = Some (ex_refresh 9), s_expiresAt = 604809000,
                   s_isActive = True\<rparr>],
      next_id = 4, storage_error = None\<rparr>"
  by code_simp

text \<open>
  Two logins, in seconds 5 and 9; the password is changed with the access token of the
  second. The first session is deactivated and its refresh token refused.
\<close>

lemma change_password_revokes_other_sessions_example:
  "fst (route_change_password ex_cfg 10000 ex_db_two (ex_bearer (ex_access 9)) True
          ''Aa1!aaaa'' ''Bb2?bbbb'')
     = json_ok 200 ''Password changed successfully'' None
   \<and> map s_isActive
       (sessions (snd (route_change_password ex_cfg 10000 ex_db_two (ex_bearer (ex_access 9))
                         True ''Aa1!aaaa'' ''Bb2?bbbb'')))
     = [False, True]
   \<and> fst (refresh ex_cfg 11000 11000
            (snd (route_change_password ex_cfg 10000 ex_db_two (ex_bearer (ex_access 9))
                    True ''Aa1!aaaa'' ''Bb2?bbbb''))
            (Some (ex_refresh 5)))
     = Inl (AppError ''Invalid refresh token'' 401 True ''INVALID_REFRESH_TOKEN'')"
proof -
  let ?cp = "route_change_password ex_cfg 10000 ex_db_two (ex_bearer (ex_access 9)) True
               ''Aa1!aaaa'' ''Bb2?bbbb''"
  have changed: "?cp = (json_ok 200 ''Password changed successfully'' None, snd ?cp)"
    by code_simp
  from change_password_revokes_other_sessions [OF changed] obtain currentToken ru where
    hdr: "authorization (ex_bearer (ex_access 9)) = Some (Bearer currentToken)"
    and att: "attached (fst (authMiddleware ex_cfg 10000 ex_db_two (ex_bearer (ex_access 9))))
                = Some ru"
    and stale: "\<And>tok t t'.
               tok \<noteq> Opaque []
             \<and> (\<forall>s \<in> set (sessions ex_db_two). s_refreshToken s = Some tok
                    \<longrightarrow> s_userId s = ru_id ru \<and> s_token s \<noteq> currentToken)
               \<Longrightarrow> refresh ex_cfg t t' (snd ?cp) (Some tok)
                     = (Inl (AppError ''Invalid refresh token'' 401 True ''INVALID_REFRESH_TOKEN''),
                        snd ?cp)"
    by blast
  have cur: "currentToken = ex_access 9"
    using hdr by (simp add: ex_bearer_def)
  have "attached (fst (authMiddleware ex_cfg 10000 ex_db_two (ex_bearer (ex_access 9))))
          = Some (select_user (ex_user ACTIVE))"
    by code_simp
  with att have "ru = select_user (ex_user ACTIVE)"
    by simp
  then have ru: "ru_id ru = 1"
    by (simp add: select_user_def ex_user_def)
  have c: "fst (refresh ex_cfg 11000 11000 (snd ?cp) (Some (ex_refresh 5)))
             = Inl (AppError ''Invalid refresh token'' 401 True ''INVALID_REFRESH_TOKEN'')"
    using stale [of "ex_refresh 5" 11000 11000] cur ru
    by (simp add: ex_db_two_eq ex_refresh_def ex_access_def)
  have a: "fst ?cp = json_ok 200 ''Password changed successfully'' None"
    using changed by (metis fst_conv)
  have b: "map s_isActive (sessions (snd ?cp)) = [False, True]"
    by code_simp
  from a b c show ?thesis by blast
qed

text \<open>
  Claim C5. After a successful password change the caller's current session is to stay
  active while the other sessions of the account are deactivated. The code does not keep
  this: the handler spares the row whose stored access token equals the bearer token of
  the request, and a rotation rewrites that stored token while the access token issued
  before stays valid until it expires. The session of the login in second 5 was rotated
  in second 7; its first access token is valid for an hour. A password change at 8 s with
  that token answers 200 and deactivates the caller's own, only session; the refresh
  token the caller holds is then refused with 401.
\<close>

theorem change_password_deactivates_rotated_caller:
  "map s_isActive (sessions ex_db_rotated) = [True]
   \<and> fst (route_change_password ex_cfg 8000 ex_db_rotated (ex_bearer (ex_access 5)) True
            ''Aa1!aaaa'' ''Bb2?bbbb'')
     = json_ok 200 ''Password changed successfully'' None
   \<and> map s_isActive
       (sessions (snd (route_change_password ex_cfg 8000 ex_db_rotated (ex_bearer (ex_access 5))
                         True ''Aa1!aaaa'' ''Bb2?bbbb'')))
     = [False]
   \<and> status (fst (route_refresh ex_cfg 9000 9000
                    (snd (route_change_password ex_cfg 8000 ex_db_rotated
                            (ex_bearer (ex_access 5)) True ''Aa1!aaaa'' ''Bb2?bbbb''))
                    (Some (ex_refresh 7)))) = 401"
  by code_simp

end
